theory Spec2Isabelle
  imports Main "HOL-Library.Word" "HOL-Library.Sublist"
begin

section \<open>Syntax trees as the tree provider hands them out\<close>

text \<open>
  The engine reads a syntax tree through the provider's node interface only: the type tag
  (\<open>ts_node_type\<close>), the children in order (\<open>ts_node_child_count\<close>, \<open>ts_node_child\<close>),
  a child looked up by field name (\<open>ts_node_child_by_field_name\<close>), the byte range
  (\<open>ts_node_start_byte\<close>, \<open>ts_node_end_byte\<close>), the rows of the start and end points, and
  the parent (\<open>ts_node_parent\<close>).

  A node carries exactly these attributes. Every child is stored with the field name it
  has in its parent (the empty string for a child without a field). Byte offsets and rows
  are \<open>uint32_t\<close>; \<open>size_t\<close> is taken as 64 bits wide.

  A \<open>TSNode\<close> handle is either null or a position in a tree: \<open>None\<close> is the null handle.
  The parent link of a position is kept as the list of its ancestors, nearest first; a
  traversal that steps from a node to one of its children puts the node in front.
\<close>

type_synonym uint32 = "32 word"
type_synonym size_t = "64 word"

datatype node = Node (ntype: string) (start_byte: uint32) (end_byte: uint32)
  (start_row: uint32) (end_row: uint32) (nfields: "(string \<times> node) list")

definition children :: "node \<Rightarrow> node list" where
  "children n = map snd (nfields n)"

definition child_by_field_name :: "node \<Rightarrow> string \<Rightarrow> node option" where
  "child_by_field_name n f = map_option snd (find (\<lambda>gc. fst gc = f) (nfields n))"

text \<open>A node of an example tree where only types, rows and shape matter.\<close>

definition nd :: "string \<Rightarrow> uint32 \<Rightarrow> (string \<times> node) list \<Rightarrow> node" where
  "nd t row kids = Node t 0 0 row row kids"

lemma size_in_fields:
  "c \<in> snd ` set xs \<Longrightarrow> size c < Suc (size_list (size_prod (\<lambda>x. 0) size) xs)"
  by (induction xs) fastforce+

lemma size_child: "c \<in> set (children n) \<Longrightarrow> size c < size n"
  by (cases n) (simp add: children_def size_in_fields)

lemma find_in_set: "find P xs = Some x \<Longrightarrow> x \<in> set xs"
  by (induction xs) (auto split: if_splits)

lemma child_by_field_name_in:
  "child_by_field_name n f = Some c \<Longrightarrow> c \<in> set (children n)"
  by (force simp: child_by_field_name_def children_def dest!: find_in_set)

section \<open>The complexity calculator\<close>

subsection \<open>Results and increments\<close>

record ComplexityFactor =
  description :: string
  increment :: size_t
  line_number :: size_t

record ComplexityResult =
  total_complexity :: size_t
  nesting_level :: size_t
  factors :: "ComplexityFactor list"
  function_complexities :: "string \<rightharpoonup> size_t"

text \<open>The default-constructed result: both counters 0, no factor, an empty map.\<close>

definition ComplexityResult_init :: ComplexityResult where
  "ComplexityResult_init =
     \<lparr>total_complexity = 0, nesting_level = 0, factors = [],
      function_complexities = Map.empty\<rparr>"

definition increment_for_nesting ::
  "ComplexityResult \<Rightarrow> size_t \<Rightarrow> string \<Rightarrow> size_t \<Rightarrow> ComplexityResult" where
  "increment_for_nesting result level reason line =
     result\<lparr>total_complexity := total_complexity result + level,
            factors := factors result @
              [\<lparr>description = reason, increment = level, line_number = line\<rparr>]\<rparr>"

definition increment_for_structural ::
  "ComplexityResult \<Rightarrow> string \<Rightarrow> size_t \<Rightarrow> ComplexityResult" where
  "increment_for_structural result reason line =
     result\<lparr>total_complexity := total_complexity result + 1,
            factors := factors result @
              [\<lparr>description = reason, increment = 1, line_number = line\<rparr>]\<rparr>"

definition increment_for_fundamental ::
  "ComplexityResult \<Rightarrow> string \<Rightarrow> size_t \<Rightarrow> ComplexityResult" where
  "increment_for_fundamental result reason line =
     result\<lparr>total_complexity := total_complexity result + 1,
            factors := factors result @
              [\<lparr>description = reason, increment = 1, line_number = line\<rparr>]\<rparr>"

definition increment_for_hybrid ::
  "ComplexityResult \<Rightarrow> string \<Rightarrow> size_t \<Rightarrow> ComplexityResult" where
  "increment_for_hybrid result reason line =
     result\<lparr>total_complexity := total_complexity result + 1,
            factors := factors result @
              [\<lparr>description = reason, increment = 1, line_number = line\<rparr>]\<rparr>"

text \<open>\<open>start_point.row + 1\<close> is computed in \<open>uint32_t\<close> and then widened to \<open>size_t\<close>.\<close>

definition line_of :: "node \<Rightarrow> size_t" where
  "line_of n = ucast (start_row n + 1)"

subsection \<open>The traversal of \<open>src/unnamed/part_001\<close>\<close>

definition is_control_structure :: "string \<Rightarrow> bool" where
  "is_control_structure t \<longleftrightarrow>
     t \<in> set [''if_statement'', ''for_statement'', ''while_statement'', ''do_statement'',
              ''catch_clause'', ''case_statement'', ''for_range_loop'', ''elif_clause'',
              ''else_clause'']"

definition increases_nesting_level :: "string \<Rightarrow> bool" where
  "increases_nesting_level t \<longleftrightarrow>
     t \<in> set [''if_statement'', ''for_statement'', ''while_statement'', ''do_statement'',
              ''catch_clause'', ''for_range_loop'']"

text \<open>
  The loop over \<open>ts_node_parent\<close> that looks for an enclosing \<open>function_definition\<close>: it
  walks the ancestors from the parent upwards and stops at the first one of that type.
\<close>

fun is_nested :: "node list \<Rightarrow> bool" where
  "is_nested [] = False"
| "is_nested (parent # up) =
     (if ntype parent = ''function_definition'' then True else is_nested up)"

text \<open>The parent exists and is an \<open>else_clause\<close> or an \<open>elif_clause\<close>.\<close>

definition parent_is_else :: "node list \<Rightarrow> bool" where
  "parent_is_else anc =
     (case anc of [] \<Rightarrow> False
      | parent # _ \<Rightarrow> ntype parent = ''else_clause'' \<or> ntype parent = ''elif_clause'')"

text \<open>
  The block of \<open>analyze_control_flow\<close> under the comment \<open>Check for control structures\<close>:
  what the node itself adds to the result, before its children are visited.
\<close>

definition check_control_structure ::
  "node list \<Rightarrow> node \<Rightarrow> ComplexityResult \<Rightarrow> ComplexityResult" where
  "check_control_structure anc node result =
     (if is_control_structure (ntype node) then
        (if ntype node = ''if_statement'' \<and> parent_is_else anc
         then increment_for_hybrid result ''else-if chain'' (line_of node)
         else
           (let result1 = increment_for_structural result (ntype node) (line_of node)
            in if increases_nesting_level (ntype node) \<and> 0 < nesting_level result1
               then increment_for_nesting result1 (nesting_level result1)
                      (''Nested '' @ ntype node) (line_of node)
               else result1))
      else result)"

text \<open>
  \<open>analyze_control_flow\<close>. The source text is passed along by the code and never read, so
  it is left out. The \<open>catch\<close> of the code only guards allocation failure, which is not
  modelled.
\<close>

function analyze_control_flow ::
  "node list \<Rightarrow> node option \<Rightarrow> ComplexityResult \<Rightarrow> ComplexityResult" where
  "analyze_control_flow anc None result = result"
| "analyze_control_flow anc (Some node) result =
     (if ntype node = ''function_definition'' then
        (if is_nested anc then result
         else (case child_by_field_name node ''body'' of
                 None \<Rightarrow> result
               | Some body \<Rightarrow> analyze_control_flow (node # anc) (Some body) result))
      else
        (let result1 = check_control_structure anc node result;
             increases_nesting = increases_nesting_level (ntype node);
             result2 = (if increases_nesting
                        then result1\<lparr>nesting_level := nesting_level result1 + 1\<rparr>
                        else result1);
             result3 = fold (\<lambda>child. analyze_control_flow (node # anc) (Some child))
                            (children node) result2
         in if increases_nesting
            then result3\<lparr>nesting_level := nesting_level result3 - 1\<rparr>
            else result3))"
  by pat_completeness auto
termination
  by (relation "measure (\<lambda>(anc, n, r). size_option size n)")
     (auto dest: size_child child_by_field_name_in)

text \<open>
  \<open>calculate\<close>: a null root gives the default result; a \<open>function_definition\<close> or
  \<open>method_definition\<close> root is replaced by its \<open>body\<close> field (the default result when
  there is none); any other root is traversed as it is.
\<close>

definition calculate :: "node list \<Rightarrow> node option \<Rightarrow> string \<Rightarrow> ComplexityResult" where
  "calculate anc root_node source_code =
     (case root_node of
        None \<Rightarrow> ComplexityResult_init
      | Some root \<Rightarrow>
          if ntype root = ''function_definition'' \<or> ntype root = ''method_definition''
          then (case child_by_field_name root ''body'' of
                  None \<Rightarrow> ComplexityResult_init
                | Some body \<Rightarrow>
                    analyze_control_flow (root # anc) (Some body)
                      (ComplexityResult_init\<lparr>nesting_level := 0\<rparr>))
          else analyze_control_flow anc (Some root)
                 (ComplexityResult_init\<lparr>nesting_level := 0\<rparr>))"

text \<open>
  \<open>analyze_boolean_operators\<close>, the only caller of \<open>increment_for_fundamental\<close>. Nothing
  calls it: neither \<open>calculate\<close> nor \<open>analyze_control_flow\<close> mention it.
\<close>

definition analyze_boolean_operators :: "node option \<Rightarrow> ComplexityResult \<Rightarrow> ComplexityResult" where
  "analyze_boolean_operators n result =
     (case n of
        None \<Rightarrow> result
      | Some node \<Rightarrow>
          if ntype node = ''binary_expression'' \<and> 1 < length (children node) then
            (let operator_type = ntype (children node ! 1)
             in if operator_type = ''&&'' \<or> operator_type = ''||''
                then increment_for_fundamental result
                       (''Boolean operator: '' @ operator_type) (line_of node)
                else result)
          else result)"

subsection \<open>The traversal and the batch \<open>calculate\<close> of \<open>src/unnamed/part_002\<close>\<close>

text \<open>
  The repository holds a second revision of the calculator. Its two tables list
  \<open>switch_statement\<close> and leave out the \<open>elif_clause\<close> and \<open>else_clause\<close> of the first;
  its traversal has no test for \<open>function_definition\<close>; its \<open>calculate\<close> walks the whole
  tree it is given and adds up every function it finds. The definitions taken from that
  file carry the suffix \<open>_p002\<close>.
\<close>

definition is_control_structure_p002 :: "string \<Rightarrow> bool" where
  "is_control_structure_p002 t \<longleftrightarrow>
     t \<in> set [''if_statement'', ''for_statement'', ''for_range_loop'', ''while_statement'',
              ''do_statement'', ''catch_clause'', ''switch_statement'', ''case_statement'']"

definition increases_nesting_level_p002 :: "string \<Rightarrow> bool" where
  "increases_nesting_level_p002 t \<longleftrightarrow>
     t \<in> set [''if_statement'', ''for_statement'', ''for_range_loop'', ''while_statement'',
              ''do_statement'', ''catch_clause'', ''switch_statement'']"

definition parent_is_else_p002 :: "node list \<Rightarrow> bool" where
  "parent_is_else_p002 anc =
     (case anc of [] \<Rightarrow> False | parent # _ \<Rightarrow> ntype parent = ''else_clause'')"

text \<open>The block under \<open>Analyze current node\<close>.\<close>

definition check_control_structure_p002 ::
  "node list \<Rightarrow> node \<Rightarrow> ComplexityResult \<Rightarrow> ComplexityResult" where
  "check_control_structure_p002 anc node result =
     (if is_control_structure_p002 (ntype node) then
        (if ntype node = ''if_statement'' \<and> parent_is_else_p002 anc
         then increment_for_hybrid result ''else-if statement'' (line_of node)
         else
           (let result1 = increment_for_structural result
                            (''Control structure: '' @ ntype node) (line_of node)
            in if increases_nesting_level_p002 (ntype node) \<and> 0 < nesting_level result1
               then increment_for_nesting result1 (nesting_level result1)
                      (''Nested '' @ ntype node) (line_of node)
               else result1))
      else result)"

function analyze_control_flow_p002 ::
  "node list \<Rightarrow> node option \<Rightarrow> ComplexityResult \<Rightarrow> ComplexityResult" where
  "analyze_control_flow_p002 anc None result = result"
| "analyze_control_flow_p002 anc (Some node) result =
     (let increases_nesting = increases_nesting_level_p002 (ntype node);
          result1 = check_control_structure_p002 anc node result;
          result2 = (if increases_nesting
                     then result1\<lparr>nesting_level := nesting_level result1 + 1\<rparr>
                     else result1);
          result3 = fold (\<lambda>child. analyze_control_flow_p002 (node # anc) (Some child))
                         (children node) result2
      in if increases_nesting
         then result3\<lparr>nesting_level := nesting_level result3 - 1\<rparr>
         else result3)"
  by pat_completeness auto
termination
  by (relation "measure (\<lambda>(anc, n, r). size_option size n)") (auto dest: size_child)

text \<open>
  The exceptions that the modelled code raises. \<open>std::string::substr(pos, count)\<close> throws
  \<open>std::out_of_range\<close> when \<open>pos\<close> lies beyond the end of the string, and otherwise
  returns at most \<open>count\<close> characters from \<open>pos\<close> on. \<open>utils::safe_cast\<close> throws
  \<open>std::overflow_error\<close> for a value outside the target type.
\<close>

datatype exn = out_of_range | overflow_error

definition substr :: "string \<Rightarrow> nat \<Rightarrow> nat \<Rightarrow> exn + string" where
  "substr s pos count =
     (if length s < pos then Inl out_of_range else Inr (take count (drop pos s)))"

text \<open>
  The calculator's own \<open>extract_node_text\<close> and \<open>find_function_name\<close> (the same in both
  revisions). The length \<open>end - start\<close> is a \<open>uint32_t\<close> difference.
\<close>

definition CognitiveComplexity_extract_node_text :: "node \<Rightarrow> string \<Rightarrow> exn + string" where
  "CognitiveComplexity_extract_node_text n source_code =
     substr source_code (unat (start_byte n)) (unat (end_byte n - start_byte n))"

definition CognitiveComplexity_find_function_name :: "node \<Rightarrow> node option" where
  "CognitiveComplexity_find_function_name declarator =
     (if ntype declarator = ''function_declarator''
      then child_by_field_name declarator ''declarator''
      else Some declarator)"

text \<open>
  One turn of the loop of \<open>calculate\<close> on the node popped from the stack: the name of a
  function node is read first (\<open>unknown\<close> when there is no declarator or no name node),
  then its body, when it has one, is scored into a fresh result that is added to the
  running one.
\<close>

definition function_name_p002 :: "node \<Rightarrow> string \<Rightarrow> exn + string" where
  "function_name_p002 current source_code =
     (case child_by_field_name current ''declarator'' of
        None \<Rightarrow> Inr ''unknown''
      | Some declarator \<Rightarrow>
          (case CognitiveComplexity_find_function_name declarator of
             None \<Rightarrow> Inr ''unknown''
           | Some name_node \<Rightarrow> CognitiveComplexity_extract_node_text name_node source_code))"

definition add_function_p002 ::
  "node list \<Rightarrow> node \<Rightarrow> string \<Rightarrow> ComplexityResult \<Rightarrow> exn + ComplexityResult" where
  "add_function_p002 anc current source_code total_result =
     (if ntype current = ''function_definition'' \<or> ntype current = ''function_declaration''
      then
        (case function_name_p002 current source_code of
           Inl e \<Rightarrow> Inl e
         | Inr func_name \<Rightarrow>
             (case child_by_field_name current ''body'' of
                None \<Rightarrow> Inr total_result
              | Some body \<Rightarrow>
                  (let func_result =
                         analyze_control_flow_p002 (current # anc) (Some body)
                           ComplexityResult_init
                   in Inr (total_result
                        \<lparr>function_complexities :=
                           (function_complexities total_result)
                             (func_name \<mapsto> total_complexity func_result),
                         total_complexity :=
                           total_complexity total_result + total_complexity func_result,
                         factors := factors total_result @ factors func_result\<rparr>))))
      else Inr total_result)"

lemma sum_size_fields:
  "sum_list (map (size \<circ> snd) xs) \<le> size_list (size_prod (\<lambda>x. 0) size) xs"
  by (induction xs) auto

lemma sum_size_children: "sum_list (map size (children n)) < size n"
  using sum_size_fields [of "nfields n"]
  by (cases n) (simp add: children_def comp_def)

text \<open>
  The loop of \<open>calculate\<close> over its explicit stack, the top of the stack first. The
  children are pushed last to first, so the first child is on top: the tree is walked in
  document order. An exception leaves the loop and \<open>calculate\<close>, which has no handler.
\<close>

function calculate_loop_p002 ::
  "(node list \<times> node) list \<Rightarrow> string \<Rightarrow> ComplexityResult \<Rightarrow> exn + ComplexityResult" where
  "calculate_loop_p002 [] source_code total_result = Inr total_result"
| "calculate_loop_p002 ((anc, current) # nodes) source_code total_result =
     (case add_function_p002 anc current source_code total_result of
        Inl e \<Rightarrow> Inl e
      | Inr total_result' \<Rightarrow>
          calculate_loop_p002
            (map (\<lambda>child. (current # anc, child)) (children current) @ nodes)
            source_code total_result')"
  by pat_completeness auto
termination
  by (relation "measure (\<lambda>(nodes, s, r). sum_list (map (size \<circ> snd) nodes))")
     (auto simp: comp_def sum_size_children)

definition calculate_p002 ::
  "node list \<Rightarrow> node option \<Rightarrow> string \<Rightarrow> exn + ComplexityResult" where
  "calculate_p002 anc root_node source_code =
     (case root_node of
        None \<Rightarrow> Inr ComplexityResult_init
      | Some root \<Rightarrow> calculate_loop_p002 [(anc, root)] source_code ComplexityResult_init)"

section \<open>The language extractors\<close>

text \<open>
  \<open>FunctionInfo\<close> of \<open>parser_base.hpp\<close>. The field \<open>node\<close> is called \<open>info_node\<close> here; it
  is \<open>None\<close> where the extractor never assigns it.
\<close>

record FunctionInfo =
  name :: string
  start_line :: size_t
  end_line :: size_t
  body :: string
  info_node :: "node option"
  parameters :: "string list"

text \<open>
  \<open>ParserBase::extract_node_text\<close>: the empty string for a byte range that is reversed or
  ends beyond the text, the slice of the text otherwise.
\<close>

definition extract_node_text :: "node \<Rightarrow> string \<Rightarrow> string" where
  "extract_node_text n source_code =
     (if end_byte n < start_byte n \<or> length source_code < unat (end_byte n) then []
      else take (unat (end_byte n - start_byte n)) (drop (unat (start_byte n)) source_code))"

definition end_line_of :: "node \<Rightarrow> size_t" where
  "end_line_of n = ucast (end_row n + 1)"

lemma node_size_pos: "0 < size (n::node)"
  by (cases n) simp

subsection \<open>The C-family extractor of \<open>src/unnamed/part_009\<close>\<close>

text \<open>
  The loop of \<open>CppParser::find_function_name\<close> over its stack, the top first. A
  \<open>function_declarator\<close> is searched through its \<open>declarator\<close> field by a recursive call
  and its children are not pushed; an \<open>identifier\<close> is the answer; a qualified or scoped
  identifier answers with its \<open>name\<close> field when it has one; the children of any other node
  are pushed last to first.
\<close>

function find_name_loop :: "node list \<Rightarrow> node option" where
  "find_name_loop [] = None"
| "find_name_loop (current # nodes) =
     (if ntype current = ''function_declarator'' then
        (case child_by_field_name current ''declarator'' of
           None \<Rightarrow> find_name_loop nodes
         | Some decl \<Rightarrow>
             (case find_name_loop [decl] of
                Some found \<Rightarrow> Some found
              | None \<Rightarrow> find_name_loop nodes))
      else if ntype current = ''identifier'' then Some current
      else if (ntype current = ''qualified_identifier'' \<or> ntype current = ''scoped_identifier'')
              \<and> child_by_field_name current ''name'' \<noteq> None
      then child_by_field_name current ''name''
      else find_name_loop (children current @ nodes))"
  by pat_completeness auto
termination
proof (relation "measure (\<lambda>nodes. sum_list (map size nodes))", goal_cases)
  case 1
  show ?case by simp
next
  case (2 current nodes)
  show ?case by (simp add: node_size_pos)
next
  case (3 current nodes decl)
  then show ?case
    using size_child [OF child_by_field_name_in] by fastforce
next
  case (4 current nodes decl)
  show ?case by (simp add: node_size_pos)
next
  case (5 current nodes)
  show ?case by (simp add: sum_size_children)
qed

definition CppParser_find_function_name :: "node option \<Rightarrow> node option" where
  "CppParser_find_function_name declarator =
     (case declarator of None \<Rightarrow> None | Some d \<Rightarrow> find_name_loop [d])"

text \<open>The unit that \<open>collect_functions\<close> fills in for a function node with a name node.\<close>

definition CppParser_info :: "node \<Rightarrow> node \<Rightarrow> string \<Rightarrow> string \<Rightarrow> FunctionInfo" where
  "CppParser_info n name_node source class_scope =
     \<lparr>name = (if class_scope \<noteq> []
              then class_scope @ ''::'' @ extract_node_text name_node source
              else extract_node_text name_node source),
      start_line = line_of n,
      end_line = end_line_of n,
      body = (case child_by_field_name n ''body'' of
                None \<Rightarrow> [] | Some b \<Rightarrow> extract_node_text b source),
      info_node = Some n,
      parameters = []\<rparr>"

text \<open>
  \<open>CppParser::collect_functions\<close>: the list of units is threaded through. A function
  definition with a declarator and a name node is appended and the call returns; every
  other node, a function definition without them included, has its children visited.
\<close>

function CppParser_collect_functions ::
  "node option \<Rightarrow> string \<Rightarrow> FunctionInfo list \<Rightarrow> string \<Rightarrow> FunctionInfo list" where
  "CppParser_collect_functions None source functions class_scope = functions"
| "CppParser_collect_functions (Some n) source functions class_scope =
     (let process_children =
            fold (\<lambda>child fs. CppParser_collect_functions (Some child) source fs class_scope)
                 (children n) functions
      in if ntype n = ''function_definition'' then
           (case child_by_field_name n ''declarator'' of
              None \<Rightarrow> process_children
            | Some declarator \<Rightarrow>
                (case CppParser_find_function_name (Some declarator) of
                   None \<Rightarrow> process_children
                 | Some name_node \<Rightarrow>
                     functions @ [CppParser_info n name_node source class_scope]))
         else process_children)"
  by pat_completeness auto
termination
  by (relation "measure (\<lambda>(n, s, fs, c). size_option size n)") (auto dest: size_child)

text \<open>
  \<open>parse_functions\<close> is given the tree that the provider builds from the file content
  (\<open>None\<close> when it builds none).
\<close>

definition CppParser_parse_functions :: "node option \<Rightarrow> string \<Rightarrow> FunctionInfo list" where
  "CppParser_parse_functions tree file_content =
     (if file_content = [] then []
      else case tree of
             None \<Rightarrow> []
           | Some root_node \<Rightarrow> CppParser_collect_functions (Some root_node) file_content [] [])"

subsection \<open>The C-family extractor of \<open>src/unnamed/part_010\<close>\<close>

text \<open>
  The second revision of the extractor finds a name by a plain search for the first
  \<open>identifier\<close> popped from a stack on which children are pushed first to last, collects
  parameter names, and appends a unit for every function definition, named or not.
\<close>

function find_name_loop_p010 :: "node list \<Rightarrow> node option" where
  "find_name_loop_p010 [] = None"
| "find_name_loop_p010 (current # nodes) =
     (if ntype current = ''identifier'' then Some current
      else find_name_loop_p010 (rev (children current) @ nodes))"
  by pat_completeness auto
termination
  by (relation "measure (\<lambda>nodes. sum_list (map size nodes))")
     (auto simp: sum_size_children rev_map [symmetric])

definition CppParser_find_function_name_p010 :: "node \<Rightarrow> node option" where
  "CppParser_find_function_name_p010 declarator = find_name_loop_p010 [declarator]"

fun collect_parameters_loop_p010 :: "node list \<Rightarrow> string \<Rightarrow> string list \<Rightarrow> string list" where
  "collect_parameters_loop_p010 [] source params = params"
| "collect_parameters_loop_p010 (child # rest) source params =
     collect_parameters_loop_p010 rest source
       (if ntype child = ''parameter_declaration'' then
          (case child_by_field_name child ''declarator'' of
             None \<Rightarrow> params
           | Some declarator \<Rightarrow>
               (case CppParser_find_function_name_p010 declarator of
                  None \<Rightarrow> params
                | Some name_node \<Rightarrow> params @ [extract_node_text name_node source]))
        else params)"

definition CppParser_collect_parameters_p010 ::
  "node \<Rightarrow> string \<Rightarrow> string list \<Rightarrow> string list" where
  "CppParser_collect_parameters_p010 parameter_list source params =
     collect_parameters_loop_p010 (children parameter_list) source params"

definition CppParser_info_p010 :: "node \<Rightarrow> string \<Rightarrow> FunctionInfo" where
  "CppParser_info_p010 n source =
     \<lparr>name = (case child_by_field_name n ''declarator'' of
                None \<Rightarrow> []
              | Some declarator \<Rightarrow>
                  (case CppParser_find_function_name_p010 declarator of
                     None \<Rightarrow> []
                   | Some name_node \<Rightarrow> extract_node_text name_node source)),
      start_line = line_of n,
      end_line = end_line_of n,
      body = (case child_by_field_name n ''body'' of
                None \<Rightarrow> [] | Some b \<Rightarrow> extract_node_text b source),
      info_node = None,
      parameters = (case child_by_field_name n ''parameters'' of
                      None \<Rightarrow> []
                    | Some parameter_list \<Rightarrow>
                        CppParser_collect_parameters_p010 parameter_list source [])\<rparr>"

function CppParser_collect_functions_p010 ::
  "node option \<Rightarrow> string \<Rightarrow> FunctionInfo list \<Rightarrow> FunctionInfo list" where
  "CppParser_collect_functions_p010 None source functions = functions"
| "CppParser_collect_functions_p010 (Some n) source functions =
     (if ntype n = ''function_definition''
      then functions @ [CppParser_info_p010 n source]
      else fold (\<lambda>child fs. CppParser_collect_functions_p010 (Some child) source fs)
                (children n) functions)"
  by pat_completeness auto
termination
  by (relation "measure (\<lambda>(n, s, fs). size_option size n)") (auto dest: size_child)


subsection \<open>The indentation-based extractor of \<open>src/unnamed/part_011\<close>\<close>

text \<open>
  The loop over the parents of the function node: every enclosing \<open>function_definition\<close>
  that has a \<open>name\<close> field puts its name and a dot in front, the nearest first.
\<close>

fun qualify_name :: "node list \<Rightarrow> string \<Rightarrow> string \<Rightarrow> string" where
  "qualify_name [] source nm = nm"
| "qualify_name (parent # up) source nm =
     qualify_name up source
       (if ntype parent = ''function_definition'' then
          (case child_by_field_name parent ''name'' of
             None \<Rightarrow> nm
           | Some parent_name \<Rightarrow> extract_node_text parent_name source @ ''.'' @ nm)
        else nm)"

definition PythonParser_info :: "node list \<Rightarrow> node \<Rightarrow> string \<Rightarrow> FunctionInfo" where
  "PythonParser_info func_anc func_node source =
     \<lparr>name = (case child_by_field_name func_node ''name'' of
                None \<Rightarrow> []
              | Some name_node \<Rightarrow>
                  qualify_name func_anc source (extract_node_text name_node source)),
      start_line = line_of func_node,
      end_line = end_line_of func_node,
      body = (case child_by_field_name func_node ''body'' of
                None \<Rightarrow> [] | Some b \<Rightarrow> extract_node_text b source),
      info_node = Some func_node,
      parameters = []\<rparr>"

text \<open>
  \<open>PythonParser::collect_functions\<close>. For a \<open>decorated_definition\<close> the function node is
  its \<open>definition\<close> field, and the call returns at once when there is none. In the other
  two cases the unit is appended and the children of the visited node are processed as
  for any node.
\<close>

function PythonParser_collect_functions ::
  "node list \<Rightarrow> node \<Rightarrow> string \<Rightarrow> FunctionInfo list \<Rightarrow> FunctionInfo list" where
  "PythonParser_collect_functions anc n source functions =
     (if ntype n = ''function_definition'' \<or> ntype n = ''decorated_definition'' then
        (if ntype n = ''decorated_definition'' then
           (case child_by_field_name n ''definition'' of
              None \<Rightarrow> functions
            | Some func_node \<Rightarrow>
                fold (\<lambda>child. PythonParser_collect_functions (n # anc) child source)
                     (children n)
                     (functions @ [PythonParser_info (n # anc) func_node source]))
         else
           fold (\<lambda>child. PythonParser_collect_functions (n # anc) child source)
                (children n)
                (functions @ [PythonParser_info anc n source]))
      else
        fold (\<lambda>child. PythonParser_collect_functions (n # anc) child source)
             (children n) functions)"
  by pat_completeness auto
termination
  by (relation "measure (\<lambda>(anc, n, s, fs). size n)") (auto dest: size_child)

definition PythonParser_parse_functions :: "node option \<Rightarrow> string \<Rightarrow> FunctionInfo list" where
  "PythonParser_parse_functions tree file_content =
     (if file_content = [] then []
      else case tree of
             None \<Rightarrow> []
           | Some root_node \<Rightarrow> PythonParser_collect_functions [] root_node file_content [])"

text \<open>All nodes of a tree in document order, and the trees in which every
  \<open>decorated_definition\<close> has its \<open>definition\<close> field, as the grammar makes them.\<close>

function subnodes :: "node \<Rightarrow> node list" where
  "subnodes n = n # concat (map subnodes (children n))"
  by pat_completeness auto
termination
  by (relation "measure size") (auto dest: size_child)

definition decorated_have_definition :: "node \<Rightarrow> bool" where
  "decorated_have_definition n \<longleftrightarrow>
     list_all (\<lambda>m. ntype m = ''decorated_definition''
                   \<longrightarrow> child_by_field_name m ''definition'' \<noteq> None) (subnodes n)"

section \<open>The parser registry\<close>

datatype parser = CppParser | PythonParser

fun get_extensions :: "parser \<Rightarrow> string list" where
  "get_extensions CppParser = [''cpp'', ''cxx'', ''cc'', ''hpp'', ''hxx'', ''h'']"
| "get_extensions PythonParser = [''py'']"

fun get_language_name :: "parser \<Rightarrow> string" where
  "get_language_name CppParser = ''cpp''"
| "get_language_name PythonParser = ''python''"



text \<open>
  \<open>ParserFactory\<close> of \<open>src/unnamed/part_012\<close>: the members \<open>parsers_\<close> and \<open>extensions_\<close>.
\<close>

record ParserFactory =
  parsers :: "string \<rightharpoonup> parser"
  extensions :: "string \<rightharpoonup> string"

definition ParserFactory_init :: ParserFactory where
  "ParserFactory_init = \<lparr>parsers = Map.empty, extensions = Map.empty\<rparr>"

definition register_parser :: "ParserFactory \<Rightarrow> parser option \<Rightarrow> ParserFactory" where
  "register_parser factory p =
     (case p of
        None \<Rightarrow> factory
      | Some new_parser \<Rightarrow>
          (let language_name = get_language_name new_parser
           in \<lparr>parsers = (parsers factory)(language_name \<mapsto> new_parser),
               extensions = fold (\<lambda>ext m. m(ext \<mapsto> language_name))
                                 (get_extensions new_parser) (extensions factory)\<rparr>))"

definition create_parser :: "ParserFactory \<Rightarrow> string \<Rightarrow> parser option" where
  "create_parser factory lang = parsers factory lang"

text \<open>
  \<open>std::filesystem::path::extension\<close> on a POSIX path, after the C++ standard: the file
  name is what follows the last slash; its extension starts at its last dot, and is empty
  when the name has no dot, is \<open>.\<close> or \<open>..\<close>, or has its only dot in front.
\<close>

definition path_filename :: "string \<Rightarrow> string" where
  "path_filename p = rev (takeWhile (\<lambda>c. c \<noteq> CHR ''/'') (rev p))"

definition path_extension :: "string \<Rightarrow> string" where
  "path_extension p =
     (let f = path_filename p;
          upto_last_dot = dropWhile (\<lambda>c. c \<noteq> CHR ''.'') (rev f)
      in if f = ''.'' \<or> f = ''..'' then []
         else if length upto_last_dot \<le> 1 then []
         else CHR ''.'' # rev (takeWhile (\<lambda>c. c \<noteq> CHR ''.'') (rev f)))"

definition create_parser_for_file :: "ParserFactory \<Rightarrow> string \<Rightarrow> parser option" where
  "create_parser_for_file factory filename =
     (let ext = path_extension filename
      in if ext = [] then None
         else
           (let ext1 = (if hd ext = CHR ''.'' then tl ext else ext)
            in case extensions factory ext1 of
                 Some lang \<Rightarrow> create_parser factory lang
               | None \<Rightarrow> None))"

text \<open>
  The registry after the constructor of \<open>Analyzer\<close> (the revision that follows
  \<open>analyzer.hpp\<close> in \<open>src/catchy/analysis/analyzer.hpp\<close>): the C-family extractor is
  registered first, the indentation-based one second.
\<close>

definition Analyzer_factory :: ParserFactory where
  "Analyzer_factory =
     register_parser (register_parser ParserFactory_init (Some CppParser)) (Some PythonParser)"

text \<open>
  The resolution as the specification words it: the extension without its leading dot is
  lowercased, then looked up; an unmapped or absent extension gives none.
\<close>

definition to_lower :: "char \<Rightarrow> char" where
  "to_lower c =
     (let k = (of_char c :: nat) in if 65 \<le> k \<and> k \<le> 90 then char_of (k + 32) else c)"

definition create_for_extension_spec :: "ParserFactory \<Rightarrow> string \<Rightarrow> parser option" where
  "create_for_extension_spec factory path =
     (let ext = map to_lower (dropWhile (\<lambda>c. c = CHR ''.'') (path_extension path))
      in if ext = [] then None
         else case extensions factory ext of
                Some lang \<Rightarrow> create_parser factory lang
              | None \<Rightarrow> None)"

section \<open>The analysis orchestrator\<close>


text \<open>
  \<open>Analyzer::extract_function_name\<close>: the stack loop looks for an \<open>identifier\<close> whose byte
  range lies inside the text and returns its slice; children are pushed first to last;
  the empty string when the stack runs out.
\<close>

function extract_name_loop :: "node list \<Rightarrow> string \<Rightarrow> string" where
  "extract_name_loop [] source = []"
| "extract_name_loop (current # nodes) source =
     (if ntype current = ''identifier'' \<and> unat (start_byte current) < length source
         \<and> unat (end_byte current) \<le> length source
      then take (unat (end_byte current - start_byte current))
             (drop (unat (start_byte current)) source)
      else extract_name_loop (rev (children current) @ nodes) source)"
  by pat_completeness auto
termination
  by (relation "measure (\<lambda>(nodes, s). sum_list (map size nodes))")
     (auto simp: sum_size_children rev_map [symmetric])

definition extract_function_name :: "node \<Rightarrow> string \<Rightarrow> string" where
  "extract_function_name n source = extract_name_loop [n] source"

fun full_name_loop :: "node list \<Rightarrow> string \<Rightarrow> string \<Rightarrow> string" where
  "full_name_loop [] source full_name = full_name"
| "full_name_loop (parent # up) source full_name =
     full_name_loop up source
       (if ntype parent = ''function_definition'' then
          (case child_by_field_name parent ''name'' of
             None \<Rightarrow> full_name
           | Some parent_name \<Rightarrow>
               extract_function_name parent_name source @ ''.'' @ full_name)
        else full_name)"

text \<open>The first non-null answer among the children, as the loop over them returns it.\<close>

fun first_found :: "('a \<Rightarrow> 'b option) \<Rightarrow> 'a list \<Rightarrow> 'b option" where
  "first_found f [] = None"
| "first_found f (x # xs) = (case f x of Some r \<Rightarrow> Some r | None \<Rightarrow> first_found f xs)"

lemma first_found_cong [fundef_cong]:
  "xs = ys \<Longrightarrow> (\<And>x. x \<in> set ys \<Longrightarrow> f x = g x) \<Longrightarrow> first_found f xs = first_found g ys"
  by (induction ys arbitrary: xs) (auto split: option.splits)

definition python_full_name :: "node list \<Rightarrow> node \<Rightarrow> string \<Rightarrow> string option" where
  "python_full_name actual_anc actual_func_node source =
     (case child_by_field_name actual_func_node ''name'' of
        None \<Rightarrow> None
      | Some name_node \<Rightarrow>
          Some (full_name_loop actual_anc source (extract_function_name name_node source)))"

definition cpp_current_name :: "node \<Rightarrow> string \<Rightarrow> string option" where
  "cpp_current_name n source =
     (case child_by_field_name n ''declarator'' of
        None \<Rightarrow> None
      | Some declarator \<Rightarrow>
          (case CppParser_find_function_name (Some declarator) of
             None \<Rightarrow> None
           | Some name_node \<Rightarrow> Some (extract_function_name name_node source)))"

text \<open>
  \<open>Analyzer::find_function_node\<close>, which answers with a handle: the node and its
  ancestors. \<open>python_full_name\<close> and \<open>cpp_current_name\<close> are the names that its two blocks
  compare with the wanted one (\<open>None\<close> when the block reaches no comparison).
\<close>

function find_function_node ::
  "node list \<Rightarrow> node option \<Rightarrow> string \<Rightarrow> string \<Rightarrow> (node list \<times> node) option" where
  "find_function_node anc None fname source = None"
| "find_function_node anc (Some n) fname source =
     (let search_children =
            first_found (\<lambda>child. find_function_node (n # anc) (Some child) fname source)
              (children n)
      in if ntype n = ''function_definition'' \<or> ntype n = ''decorated_definition'' then
           (case (if ntype n = ''decorated_definition''
                  then child_by_field_name n ''definition'' else Some n) of
              None \<Rightarrow> None
            | Some actual_func_node \<Rightarrow>
                (let actual_anc = (if ntype n = ''decorated_definition'' then n # anc else anc)
                 in if python_full_name actual_anc actual_func_node source = Some fname
                    then Some (actual_anc, actual_func_node)
                    else if ntype n = ''function_definition''
                            \<and> cpp_current_name n source = Some fname
                    then Some (anc, n)
                    else search_children))
         else search_children)"
  by pat_completeness auto
termination
  by (relation "measure (\<lambda>(anc, n, f, s). size_option size n)") (auto dest: size_child)



subsection \<open>The orchestrator of \<open>src/catchy/analysis/analyzer.cpp\<close>\<close>


function find_function_node_analyzer_cpp ::
  "node list \<Rightarrow> node option \<Rightarrow> string \<Rightarrow> string \<Rightarrow> (node list \<times> node) option" where
  "find_function_node_analyzer_cpp anc None fname source = None"
| "find_function_node_analyzer_cpp anc (Some n) fname source =
     (let search_children =
            first_found
              (\<lambda>child. find_function_node_analyzer_cpp (n # anc) (Some child) fname source)
              (children n)
      in if ntype n = ''function_definition'' \<or> ntype n = ''function_declaration'' then
           (case child_by_field_name n ''declarator'' of
              None \<Rightarrow> search_children
            | Some declarator \<Rightarrow>
                if extract_function_name declarator source = fname then Some (anc, n)
                else search_children)
         else search_children)"
  by pat_completeness auto
termination
  by (relation "measure (\<lambda>(anc, n, f, s). size_option size n)") (auto dest: size_child)




text \<open>A subtree without any node that the traversal of \<open>part_001\<close> counts.\<close>

definition no_control_structures :: "node \<Rightarrow> bool" where
  "no_control_structures n \<longleftrightarrow>
     list_all (\<lambda>m. \<not> is_control_structure (ntype m)) (subnodes n)"

section \<open>Example trees\<close>

text \<open>
  Trees of small functions in the shapes the two grammars give them. The nodes built with
  \<open>nd\<close> carry types, rows and fields; the calculator reads nothing else.
\<close>

definition tu :: node where
  "tu = nd ''translation_unit'' 0 []"

definition cond_x :: "uint32 \<Rightarrow> node" where
  "cond_x row = nd ''condition_clause'' row
     [('''', nd ''('' row []), (''value'', nd ''identifier'' row []), ('''', nd '')'' row [])]"

definition block_from :: "uint32 \<Rightarrow> node list \<Rightarrow> node" where
  "block_from row stmts = nd ''compound_statement'' row
     ([('''', nd ''{'' row [])] @ map (Pair '''') stmts @ [('''', nd ''}'' row [])])"

text \<open>\<open>void f() { ... }\<close> with the given statements; the name \<open>f\<close> is at bytes 5 to 6.\<close>

definition cpp_function :: "node list \<Rightarrow> node" where
  "cpp_function stmts = nd ''function_definition'' 0
     [(''type'', nd ''primitive_type'' 0 []),
      (''declarator'', nd ''function_declarator'' 0
         [(''declarator'', Node ''identifier'' 5 6 0 0 []),
          (''parameters'', nd ''parameter_list'' 0 [])]),
      (''body'', block_from 0 stmts)]"

definition if_stmt :: "uint32 \<Rightarrow> node list \<Rightarrow> (string \<times> node) list \<Rightarrow> node" where
  "if_stmt row stmts alt = nd ''if_statement'' row
     ([('''', nd ''if'' row []), (''condition'', cond_x row),
       (''consequence'', block_from row stmts)] @ alt)"

text \<open>\<open>void f() { if (x) { } }\<close>, the \<open>if\<close> on the second line.\<close>

definition bare_if_fn :: node where
  "bare_if_fn = cpp_function [if_stmt 1 [] []]"

text \<open>\<open>void f() { for (;;) { if (x) { } } }\<close>, one construct per line.\<close>

definition for_if_fn :: node where
  "for_if_fn = cpp_function
     [nd ''for_statement'' 1
        [('''', nd ''for'' 1 []), ('''', nd ''('' 1 []), ('''', nd '';'' 1 []),
         ('''', nd '';'' 1 []), ('''', nd '')'' 1 []),
         (''body'', block_from 1 [if_stmt 2 [] []])]]"








text \<open>
  The tables of \<open>part_001\<close> also name \<open>else_clause\<close> for the C family, where the pinned
  grammar is taken to have no such node. A clause node that wraps the statement after
  \<open>else\<close>, and the chain above in the shape where every \<open>else\<close> branch is such a node:
\<close>

definition else_clause :: "uint32 \<Rightarrow> node \<Rightarrow> node" where
  "else_clause row stmt = nd ''else_clause'' row [('''', nd ''else'' row []), ('''', stmt)]"

definition else_if_chain_fn :: node where
  "else_if_chain_fn = cpp_function
     [if_stmt 1 []
        [(''alternative'', else_clause 2
            (if_stmt 2 [] [(''alternative'', else_clause 3 (block_from 3 []))]))]]"

text \<open>
  A function whose body holds a local class with a method, and that method an \<open>if\<close>:
  the text, the tree of the file, and the ancestors of the method from its parent up.
\<close>

definition local_class_src :: string where
  "local_class_src = ''void f() { struct L { void m() { if (x) { } } }; }''"

definition local_method :: node where
  "local_method = nd ''function_definition'' 2
     [(''type'', nd ''primitive_type'' 2 []),
      (''declarator'', nd ''function_declarator'' 2
         [(''declarator'', Node ''field_identifier'' 27 28 2 2 []),
          (''parameters'', nd ''parameter_list'' 2 [])]),
      (''body'', block_from 2 [if_stmt 2 [] []])]"

definition local_class_body :: node where
  "local_class_body = nd ''field_declaration_list'' 1
     [('''', nd ''{'' 1 []), ('''', local_method), ('''', nd ''}'' 3 [])]"

definition local_struct :: node where
  "local_struct = nd ''struct_specifier'' 1
     [('''', nd ''struct'' 1 []), (''name'', nd ''type_identifier'' 1 []),
      (''body'', local_class_body)]"

definition local_class_decl :: node where
  "local_class_decl = nd ''declaration'' 1 [(''type'', local_struct), ('''', nd '';'' 3 [])]"

definition local_class_fn :: node where
  "local_class_fn = cpp_function [local_class_decl]"

definition local_class_file :: node where
  "local_class_file = nd ''translation_unit'' 0 [('''', local_class_fn)]"

definition local_method_ancestors :: "node list" where
  "local_method_ancestors =
     [local_class_body, local_struct, local_class_decl, block_from 0 [local_class_decl],
      local_class_fn, local_class_file]"

text \<open>\<open>switch (x) { case 1: if (x) { } }\<close>, one construct per line.\<close>

definition switch_stmt :: node where
  "switch_stmt = nd ''switch_statement'' 1
     [('''', nd ''switch'' 1 []), (''condition'', cond_x 1),
      (''body'', block_from 1
         [nd ''case_statement'' 2
            [('''', nd ''case'' 2 []), (''value'', nd ''number_literal'' 2 []),
             ('''', nd '':'' 2 []), ('''', if_stmt 3 [] [])]])]"

definition switch_fn :: node where
  "switch_fn = cpp_function [switch_stmt]"

definition switch_file :: node where
  "switch_file = nd ''translation_unit'' 0 [('''', switch_fn)]"

text \<open>\<open>return a && b;\<close> as the only statement.\<close>

definition and_expression :: node where
  "and_expression = nd ''binary_expression'' 1
     [(''left'', nd ''identifier'' 1 []), (''operator'', nd ''&&'' 1 []),
      (''right'', nd ''identifier'' 1 [])]"

definition and_return_fn :: node where
  "and_return_fn = cpp_function
     [nd ''return_statement'' 1
        [('''', nd ''return'' 1 []), ('''', and_expression), ('''', nd '';'' 1 [])]]"

text \<open>
  Three small files with the byte ranges and rows of every node that the extractors
  read. A nested function in the C family:
  \<^verbatim>\<open>
  void f() {
    void g() { }
  }
  \<close>
\<close>

definition nested_cpp_src :: string where
  "nested_cpp_src = ''void f() {\<newline>  void g() { }\<newline>}\<newline>''"

definition nested_cpp_inner :: node where
  "nested_cpp_inner = Node ''function_definition'' 13 25 1 1
     [(''type'', Node ''primitive_type'' 13 17 1 1 []),
      (''declarator'', Node ''function_declarator'' 18 21 1 1
         [(''declarator'', Node ''identifier'' 18 19 1 1 []),
          (''parameters'', Node ''parameter_list'' 19 21 1 1
             [('''', Node ''('' 19 20 1 1 []), ('''', Node '')'' 20 21 1 1 [])])]),
      (''body'', Node ''compound_statement'' 22 25 1 1
         [('''', Node ''{'' 22 23 1 1 []), ('''', Node ''}'' 24 25 1 1 [])])]"

definition nested_cpp_outer :: node where
  "nested_cpp_outer = Node ''function_definition'' 0 27 0 2
     [(''type'', Node ''primitive_type'' 0 4 0 0 []),
      (''declarator'', Node ''function_declarator'' 5 8 0 0
         [(''declarator'', Node ''identifier'' 5 6 0 0 []),
          (''parameters'', Node ''parameter_list'' 6 8 0 0
             [('''', Node ''('' 6 7 0 0 []), ('''', Node '')'' 7 8 0 0 [])])]),
      (''body'', Node ''compound_statement'' 9 27 0 2
         [('''', Node ''{'' 9 10 0 0 []), ('''', nested_cpp_inner),
          ('''', Node ''}'' 26 27 2 2 [])])]"

definition nested_cpp_file :: node where
  "nested_cpp_file = Node ''translation_unit'' 0 28 0 3 [('''', nested_cpp_outer)]"

text \<open>
  A nested function in the indentation-based language:
  \<^verbatim>\<open>
  def outer():
      def inner():
          pass
      return 1
  \<close>
\<close>

definition nested_py_src :: string where
  "nested_py_src =
     ''def outer():\<newline>    def inner():\<newline>        pass\<newline>    return 1\<newline>''"

definition nested_py_inner :: node where
  "nested_py_inner = Node ''function_definition'' 17 42 1 2
     [('''', Node ''def'' 17 20 1 1 []),
      (''name'', Node ''identifier'' 21 26 1 1 []),
      (''parameters'', Node ''parameters'' 26 28 1 1
         [('''', Node ''('' 26 27 1 1 []), ('''', Node '')'' 27 28 1 1 [])]),
      ('''', Node '':'' 28 29 1 1 []),
      (''body'', Node ''block'' 38 42 2 2
         [('''', Node ''pass_statement'' 38 42 2 2 [('''', Node ''pass'' 38 42 2 2 [])])])]"

definition nested_py_outer :: node where
  "nested_py_outer = Node ''function_definition'' 0 55 0 3
     [('''', Node ''def'' 0 3 0 0 []),
      (''name'', Node ''identifier'' 4 9 0 0 []),
      (''parameters'', Node ''parameters'' 9 11 0 0
         [('''', Node ''('' 9 10 0 0 []), ('''', Node '')'' 10 11 0 0 [])]),
      ('''', Node '':'' 11 12 0 0 []),
      (''body'', Node ''block'' 17 55 1 3
         [('''', nested_py_inner),
          ('''', Node ''return_statement'' 47 55 3 3
             [('''', Node ''return'' 47 53 3 3 []), ('''', Node ''integer'' 54 55 3 3 [])])])]"

definition nested_py_file :: node where
  "nested_py_file = Node ''module'' 0 56 0 4 [('''', nested_py_outer)]"





text \<open>
  \<open>countVowels\<close> of \<open>examples/vowel_count.cpp\<close>: a range loop on line 11, a range loop
  inside it on line 12, an \<open>if\<close> inside that on line 13, and an \<open>if\<close> on line 19. The
  comments of the file expect 1, 2, 3 and 1, in all 7.
\<close>

definition range_loop :: "uint32 \<Rightarrow> node list \<Rightarrow> node" where
  "range_loop row stmts = nd ''for_range_loop'' row
     [('''', nd ''for'' row []), ('''', nd ''('' row []),
      (''type'', nd ''primitive_type'' row []), (''declarator'', nd ''identifier'' row []),
      ('''', nd '':'' row []), (''right'', nd ''identifier'' row []), ('''', nd '')'' row []),
      (''body'', block_from row stmts)]"

definition vowel_count_fn :: node where
  "vowel_count_fn = nd ''function_definition'' 5
     [(''type'', nd ''qualified_identifier'' 5 []),
      (''declarator'', nd ''function_declarator'' 5
         [(''declarator'', nd ''identifier'' 5 []),
          (''parameters'', nd ''parameter_list'' 5 [])]),
      (''body'', block_from 5
         [nd ''declaration'' 6 [], nd ''declaration'' 7 [],
          range_loop 10
            [range_loop 11
               [if_stmt 12 [nd ''expression_statement'' 13 [('''', nd ''update_expression'' 13 [])]] []]],
          if_stmt 18 [nd ''return_statement'' 19 []] [],
          nd ''return_statement'' 21 []])]"

section \<open>Properties of the calculator\<close>

declare analyze_control_flow.simps [simp del] analyze_control_flow_p002.simps [simp del]
  calculate_loop_p002.simps [simp del] subnodes.simps [simp del]

definition sum_ok :: "ComplexityResult \<Rightarrow> bool" where
  "sum_ok r \<longleftrightarrow> total_complexity r = sum_list (map increment (factors r))"

lemma fold_inv:
  "(\<And>c r. c \<in> set cs \<Longrightarrow> P r \<Longrightarrow> P (f c r)) \<Longrightarrow> P r \<Longrightarrow> P (fold f cs r)"
  by (induction cs arbitrary: r) auto

lemma sum_ok_nesting_level [simp]: "sum_ok (r\<lparr>nesting_level := k\<rparr>) = sum_ok r"
  by (simp add: sum_ok_def)

lemma sum_ok_init [simp]: "sum_ok ComplexityResult_init"
  by (simp add: sum_ok_def ComplexityResult_init_def)

lemma check_control_structure_sum:
  "sum_ok r \<Longrightarrow> sum_ok (check_control_structure anc n r)"
  by (auto simp: sum_ok_def check_control_structure_def increment_for_hybrid_def
      increment_for_structural_def increment_for_nesting_def Let_def)

lemma analyze_control_flow_sum: "sum_ok r \<Longrightarrow> sum_ok (analyze_control_flow anc n r)"
proof (induction anc n r rule: analyze_control_flow.induct)
  case (1 anc result)
  then show ?case by (simp add: analyze_control_flow.simps)
next
  case (2 anc node result)
  show ?case
  proof (cases "ntype node = ''function_definition''")
    case True
    then show ?thesis
      using 2 by (auto simp: analyze_control_flow.simps split: option.splits)
  next
    case False
    have "sum_ok (fold (\<lambda>child. analyze_control_flow (node # anc) (Some child))
                    (children node) r2)" if "sum_ok r2" for r2
      using that False 2(2) by (intro fold_inv [where P = sum_ok]) auto
    then show ?thesis
      using False 2(3)
      by (simp add: analyze_control_flow.simps Let_def check_control_structure_sum)
  qed
qed

lemma check_control_structure_p002_sum:
  "sum_ok r \<Longrightarrow> sum_ok (check_control_structure_p002 anc n r)"
  by (auto simp: sum_ok_def check_control_structure_p002_def increment_for_hybrid_def
      increment_for_structural_def increment_for_nesting_def Let_def)

lemma analyze_control_flow_p002_sum:
  "sum_ok r \<Longrightarrow> sum_ok (analyze_control_flow_p002 anc n r)"
proof (induction anc n r rule: analyze_control_flow_p002.induct)
  case (1 anc result)
  then show ?case by (simp add: analyze_control_flow_p002.simps)
next
  case (2 anc node result)
  have "sum_ok (fold (\<lambda>child. analyze_control_flow_p002 (node # anc) (Some child))
                  (children node) r2)" if "sum_ok r2" for r2
    using that 2(1) by (intro fold_inv [where P = sum_ok]) auto
  then show ?case
    using 2(2)
    by (simp add: analyze_control_flow_p002.simps Let_def check_control_structure_p002_sum)
qed

lemma add_function_p002_sum:
  assumes "sum_ok r" and "add_function_p002 anc n src r = Inr r'"
  shows "sum_ok r'"
proof -
  have "sum_ok (analyze_control_flow_p002 (n # anc) b ComplexityResult_init)" for b
    by (rule analyze_control_flow_p002_sum) simp
  then show ?thesis
    using assms
    by (auto simp: add_function_p002_def sum_ok_def Let_def
        split: if_splits sum.splits option.splits)
qed

lemma calculate_loop_p002_sum:
  "sum_ok r \<Longrightarrow> calculate_loop_p002 nodes src r = Inr r' \<Longrightarrow> sum_ok r'"
proof (induction nodes src r rule: calculate_loop_p002.induct)
  case (1 source_code total_result)
  then show ?case by (simp add: calculate_loop_p002.simps)
next
  case (2 anc current nodes source_code total_result)
  then show ?case
    by (auto simp: calculate_loop_p002.simps split: sum.splits dest: add_function_p002_sum)
qed

lemma calculate_source_unused: "calculate anc root src = calculate anc root []"
  by (simp add: calculate_def)

lemma check_control_structure_level:
  "nesting_level (check_control_structure anc n r) = nesting_level r"
  by (auto simp: check_control_structure_def increment_for_hybrid_def
      increment_for_structural_def increment_for_nesting_def Let_def)

lemma analyze_control_flow_level:
  "nesting_level (analyze_control_flow anc n r) = nesting_level r"
proof (induction anc n r rule: analyze_control_flow.induct)
  case (1 anc result)
  then show ?case by (simp add: analyze_control_flow.simps)
next
  case (2 anc node result)
  show ?case
  proof (cases "ntype node = ''function_definition''")
    case True
    then show ?thesis
      using 2 by (auto simp: analyze_control_flow.simps split: option.splits)
  next
    case False
    have "nesting_level (fold (\<lambda>child. analyze_control_flow (node # anc) (Some child))
                           (children node) r2) = k" if "nesting_level r2 = k" for r2 k
      using that False 2(2)
      by (intro fold_inv [where P = "\<lambda>r. nesting_level r = k"]) auto
    then show ?thesis
      using False
      by (simp add: analyze_control_flow.simps Let_def check_control_structure_level)
  qed
qed

lemma fold_level:
  "nesting_level (fold (\<lambda>child. analyze_control_flow anc (Some child)) cs r) = nesting_level r"
  by (rule fold_inv [where P = "\<lambda>x. nesting_level x = nesting_level r"])
     (simp_all add: analyze_control_flow_level)

lemma check_control_structure_p002_level:
  "nesting_level (check_control_structure_p002 anc n r) = nesting_level r"
  by (auto simp: check_control_structure_p002_def increment_for_hybrid_def
      increment_for_structural_def increment_for_nesting_def Let_def)

lemma analyze_control_flow_p002_level:
  "nesting_level (analyze_control_flow_p002 anc n r) = nesting_level r"
proof (induction anc n r rule: analyze_control_flow_p002.induct)
  case (1 anc result)
  then show ?case by (simp add: analyze_control_flow_p002.simps)
next
  case (2 anc node result)
  have "nesting_level (fold (\<lambda>child. analyze_control_flow_p002 (node # anc) (Some child))
                         (children node) r2) = k" if "nesting_level r2 = k" for r2 k
    using that 2(1)
    by (intro fold_inv [where P = "\<lambda>r. nesting_level r = k"]) auto
  then show ?case
    by (simp add: analyze_control_flow_p002.simps Let_def check_control_structure_p002_level)
qed

lemma fold_level_p002:
  "nesting_level (fold (\<lambda>child. analyze_control_flow_p002 anc (Some child)) cs r)
     = nesting_level r"
  by (rule fold_inv [where P = "\<lambda>x. nesting_level x = nesting_level r"])
     (simp_all add: analyze_control_flow_p002_level)

lemma unat_sum_list:
  "unat (sum_list ws) = sum_list (map unat ws) mod 2 ^ LENGTH('a)"
  for ws :: "'a::len word list"
proof (induction ws)
  case Nil
  then show ?case by simp
next
  case (Cons w ws)
  then show ?case
    by (simp add: unat_word_ariths mod_add_right_eq)
qed

lemma unat_sum_list_size_t:
  "sum_list (map unat ws) < 2 ^ 64 \<Longrightarrow> unat (sum_list ws) = sum_list (map unat ws)"
  for ws :: "size_t list"
  by (simp add: unat_sum_list)

text \<open>
  C1. Whatever the root node and the source text, the result of \<open>calculate\<close> has a total
  equal to the sum of the increments of its factors. Totals and increments are \<open>size_t\<close>,
  and the sum is the one \<open>size_t\<close> arithmetic gives; as long as the increments add up to
  less than \<open>2 ^ 64\<close>, it is their sum as numbers. The same holds, whenever it returns,
  for the batch \<open>calculate\<close> of \<open>part_002\<close>.
\<close>

theorem total_is_sum_of_increments:
  "total_complexity (calculate anc root src)
     = sum_list (map increment (factors (calculate anc root src)))
   \<and> (sum_list (map (unat \<circ> increment) (factors (calculate anc root src))) < 2 ^ 64 \<longrightarrow>
        unat (total_complexity (calculate anc root src))
          = sum_list (map (unat \<circ> increment) (factors (calculate anc root src))))
   \<and> (\<forall>r. calculate_p002 anc root src = Inr r
          \<longrightarrow> total_complexity r = sum_list (map increment (factors r)))"
proof -
  have a: "sum_ok (calculate anc root src)"
    by (auto simp: calculate_def split: option.splits intro!: analyze_control_flow_sum)
  have b: "sum_ok r" if "calculate_p002 anc root src = Inr r" for r
    using that calculate_loop_p002_sum [of ComplexityResult_init]
    by (auto simp: calculate_p002_def split: option.splits)
  have c: "unat (total_complexity (calculate anc root src))
          = sum_list (map (unat \<circ> increment) (factors (calculate anc root src)))"
    if "sum_list (map (unat \<circ> increment) (factors (calculate anc root src))) < 2 ^ 64"
    using a that unat_sum_list_size_t [of "map increment (factors (calculate anc root src))"]
    by (simp add: sum_ok_def comp_def)
  show ?thesis
    using a b c by (simp add: sum_ok_def)
qed

theorem total_is_sum_of_increments_witness:
  "sum_list (map (unat \<circ> increment) (factors (calculate [tu] (Some for_if_fn) []))) < 2 ^ 64
   \<and> unat (total_complexity (calculate [tu] (Some for_if_fn) [])) = 3
   \<and> sum_list (map (unat \<circ> increment) (factors (calculate [tu] (Some for_if_fn) []))) = 3
   \<and> calculate_p002 [] (Some switch_file) ''void f() {}''
     = Inr (projr (calculate_p002 [] (Some switch_file) ''void f() {}''))
   \<and> total_complexity (projr (calculate_p002 [] (Some switch_file) ''void f() {}''))
       = sum_list (map increment
           (factors (projr (calculate_p002 [] (Some switch_file) ''void f() {}''))))
   \<and> total_complexity (projr (calculate_p002 [] (Some switch_file) ''void f() {}'')) = 4"
proof -
  have fs: "factors (calculate [tu] (Some for_if_fn) [])
       = [\<lparr>description = ''for_statement'', increment = 1, line_number = 2\<rparr>,
          \<lparr>description = ''if_statement'', increment = 1, line_number = 3\<rparr>,
          \<lparr>description = ''Nested if_statement'', increment = 1, line_number = 3\<rparr>]"
    by code_simp
  have small: "sum_list (map (unat \<circ> increment) (factors (calculate [tu] (Some for_if_fn) [])))
      < 2 ^ 64"
    unfolding fs by simp
  have three: "sum_list (map (unat \<circ> increment) (factors (calculate [tu] (Some for_if_fn) [])))
      = 3"
    unfolding fs by simp
  have "\<not> isl (calculate_p002 [] (Some switch_file) ''void f() {}'')"
    by code_simp
  then have ret: "calculate_p002 [] (Some switch_file) ''void f() {}''
      = Inr (projr (calculate_p002 [] (Some switch_file) ''void f() {}''))"
    by simp
  have four: "total_complexity (projr (calculate_p002 [] (Some switch_file) ''void f() {}'')) = 4"
    by code_simp
  note cpp = total_is_sum_of_increments [of "[tu]" "Some for_if_fn" "[]"]
  note batch = total_is_sum_of_increments [of "[]" "Some switch_file" "''void f() {}''"]
  have w1: "unat (total_complexity (calculate [tu] (Some for_if_fn) [])) = 3"
    using cpp [THEN conjunct2, THEN conjunct1, rule_format, OF small] three by simp
  have w2: "total_complexity (projr (calculate_p002 [] (Some switch_file) ''void f() {}''))
       = sum_list (map increment
           (factors (projr (calculate_p002 [] (Some switch_file) ''void f() {}''))))"
    by (rule batch [THEN conjunct2, THEN conjunct2, rule_format, OF ret])
  show ?thesis
    by (intro conjI small w1 three ret w2 four)
qed

text \<open>
  C2. \<open>analyze_control_flow\<close> leaves \<open>nesting_level\<close> as it found it, for every node, every
  ancestor chain and every result it is handed, the early returns included (a null node,
  a function definition). Whatever \<open>calculate\<close> returns is the traversal of some node,
  possibly the null one, started on an empty result with \<open>nesting_level\<close> 0, and its
  \<open>nesting_level\<close> is 0 again. The traversal of \<open>part_002\<close> restores the level in the
  same way.
\<close>

theorem nesting_level_restored:
  "nesting_level (analyze_control_flow anc n r) = nesting_level r
   \<and> (\<exists>anc' b r0. nesting_level r0 = 0 \<and> total_complexity r0 = 0 \<and> factors r0 = []
         \<and> calculate anc root src = analyze_control_flow anc' b r0)
   \<and> nesting_level (calculate anc root src) = 0
   \<and> nesting_level (analyze_control_flow_p002 anc n r) = nesting_level r"
proof -
  have start: "\<exists>anc' b r0. nesting_level r0 = 0 \<and> total_complexity r0 = 0 \<and> factors r0 = []
         \<and> calculate anc root src = analyze_control_flow anc' b r0"
  proof -
    let ?r0 = "ComplexityResult_init\<lparr>nesting_level := 0\<rparr>"
    have r0: "nesting_level ?r0 = 0 \<and> total_complexity ?r0 = 0 \<and> factors ?r0 = []"
      by (simp add: ComplexityResult_init_def)
    have init: "ComplexityResult_init = analyze_control_flow [] None ?r0"
      by (simp add: analyze_control_flow.simps ComplexityResult_init_def)
    have "\<exists>anc' b. calculate anc root src = analyze_control_flow anc' b ?r0"
      using init by (auto simp: calculate_def split: option.splits)
    then show ?thesis using r0 by blast
  qed
  show ?thesis
    using start
    by (simp add: analyze_control_flow_level analyze_control_flow_p002_level calculate_def
        ComplexityResult_init_def split: option.splits)
qed

text \<open>
  C3. A function whose body is a single \<open>if\<close> scores 1, with the one structural factor; a
  function with an \<open>if\<close> inside a \<open>for\<close> scores 3, the third factor being the nesting
  increment 1 of the \<open>if\<close>. In general an \<open>if_statement\<close> that is not the direct child of an
  else or elif clause adds a structural factor of 1, then, only when the level \<open>L\<close> it is
  entered at is above 0, a nesting factor of \<open>L\<close>; its children are visited at level
  \<open>L + 1\<close> and the level is \<open>L\<close> again afterwards.
\<close>

theorem bare_if_scores_one_nested_if_scores_three:
  "total_complexity (calculate [tu] (Some bare_if_fn) src) = 1
   \<and> factors (calculate [tu] (Some bare_if_fn) src)
       = [\<lparr>description = ''if_statement'', increment = 1, line_number = 2\<rparr>]
   \<and> total_complexity (calculate [tu] (Some for_if_fn) src) = 3
   \<and> factors (calculate [tu] (Some for_if_fn) src)
       = [\<lparr>description = ''for_statement'', increment = 1, line_number = 2\<rparr>,
          \<lparr>description = ''if_statement'', increment = 1, line_number = 3\<rparr>,
          \<lparr>description = ''Nested if_statement'', increment = 1, line_number = 3\<rparr>]
   \<and> (ntype n = ''if_statement'' \<and> \<not> parent_is_else anc \<longrightarrow>
        analyze_control_flow anc (Some n) r
          = (fold (\<lambda>child. analyze_control_flow (n # anc) (Some child)) (children n)
               ((if 0 < nesting_level r
                 then increment_for_nesting
                        (increment_for_structural r ''if_statement'' (line_of n))
                        (nesting_level r) ''Nested if_statement'' (line_of n)
                 else increment_for_structural r ''if_statement'' (line_of n))
                \<lparr>nesting_level := nesting_level r + 1\<rparr>))
            \<lparr>nesting_level := nesting_level r\<rparr>)"
proof -
  have a: "total_complexity (calculate [tu] (Some bare_if_fn) []) = 1"
    by code_simp
  have b: "factors (calculate [tu] (Some bare_if_fn) [])
       = [\<lparr>description = ''if_statement'', increment = 1, line_number = 2\<rparr>]"
    by code_simp
  have c: "total_complexity (calculate [tu] (Some for_if_fn) []) = 3"
    by code_simp
  have d: "factors (calculate [tu] (Some for_if_fn) [])
       = [\<lparr>description = ''for_statement'', increment = 1, line_number = 2\<rparr>,
          \<lparr>description = ''if_statement'', increment = 1, line_number = 3\<rparr>,
          \<lparr>description = ''Nested if_statement'', increment = 1, line_number = 3\<rparr>]"
    by code_simp
  have e: "analyze_control_flow anc (Some n) r
          = (fold (\<lambda>child. analyze_control_flow (n # anc) (Some child)) (children n)
               ((if 0 < nesting_level r
                 then increment_for_nesting
                        (increment_for_structural r ''if_statement'' (line_of n))
                        (nesting_level r) ''Nested if_statement'' (line_of n)
                 else increment_for_structural r ''if_statement'' (line_of n))
                \<lparr>nesting_level := nesting_level r + 1\<rparr>))
            \<lparr>nesting_level := nesting_level r\<rparr>"
    if "ntype n = ''if_statement''" and "\<not> parent_is_else anc"
    using that
    by (subst analyze_control_flow.simps)
       (simp add: check_control_structure_def Let_def is_control_structure_def
          increases_nesting_level_def fold_level increment_for_structural_def
          increment_for_nesting_def)
  show ?thesis
    using a b c d e calculate_source_unused [of _ _ src] by simp
qed

theorem bare_if_scores_one_nested_if_scores_three_witness:
  "ntype (if_stmt 2 [] []) = ''if_statement''
   \<and> \<not> parent_is_else [block_from 1 [if_stmt 2 [] []]]
   \<and> factors (analyze_control_flow [block_from 1 [if_stmt 2 [] []]]
        (Some (if_stmt 2 [] [])) (ComplexityResult_init\<lparr>nesting_level := 1\<rparr>))
       = [\<lparr>description = ''if_statement'', increment = 1, line_number = 3\<rparr>,
          \<lparr>description = ''Nested if_statement'', increment = 1, line_number = 3\<rparr>]"
proof -
  have h: "ntype (if_stmt 2 [] []) = ''if_statement''
      \<and> \<not> parent_is_else [block_from 1 [if_stmt 2 [] []]]"
    by code_simp
  note rule = bare_if_scores_one_nested_if_scores_three
    [of "[]" "if_stmt 2 [] []" "[block_from 1 [if_stmt 2 [] []]]"
        "ComplexityResult_init\<lparr>nesting_level := 1\<rparr>",
     THEN conjunct2, THEN conjunct2, THEN conjunct2, THEN conjunct2, rule_format, OF h]
  have "factors (analyze_control_flow [block_from 1 [if_stmt 2 [] []]]
        (Some (if_stmt 2 [] [])) (ComplexityResult_init\<lparr>nesting_level := 1\<rparr>))
       = [\<lparr>description = ''if_statement'', increment = 1, line_number = 3\<rparr>,
          \<lparr>description = ''Nested if_statement'', increment = 1, line_number = 3\<rparr>]"
    by (subst rule) code_simp
  with h show ?thesis by simp
qed

lemma fold_id: "(\<And>c r. c \<in> set cs \<Longrightarrow> f c r = r) \<Longrightarrow> fold f cs r = r"
  by (induction cs) auto

lemma nesting_is_control: "increases_nesting_level t \<Longrightarrow> is_control_structure t"
  by (auto simp: increases_nesting_level_def is_control_structure_def)

lemma no_control_node:
  "no_control_structures n \<Longrightarrow> \<not> is_control_structure (ntype n)"
  by (simp add: no_control_structures_def subnodes.simps [of n])

lemma no_control_child:
  "no_control_structures n \<Longrightarrow> c \<in> set (children n) \<Longrightarrow> no_control_structures c"
  by (auto simp: no_control_structures_def subnodes.simps [of n] list_all_iff)

lemma analyze_control_flow_no_control:
  "no_control_structures n \<Longrightarrow> analyze_control_flow anc (Some n) r = r"
proof (induction anc "Some n" r arbitrary: n rule: analyze_control_flow.induct)
  case (2 anc node result)
  have nc: "\<not> is_control_structure (ntype node)"
    using 2(3) by (rule no_control_node)
  show ?case
  proof (cases "ntype node = ''function_definition''")
    case True
    show ?thesis
    proof (cases "child_by_field_name node ''body''")
      case None
      then show ?thesis
        by (subst analyze_control_flow.simps) (simp add: True)
    next
      case (Some b)
      have "no_control_structures b"
        using Some 2(3) child_by_field_name_in no_control_child by blast
      then have "\<not> is_nested anc \<Longrightarrow> analyze_control_flow (node # anc) (Some b) result = result"
        using 2(1) [OF True _ Some] by simp
      then show ?thesis
        by (subst analyze_control_flow.simps) (simp add: True Some)
    qed
  next
    case False
    have ni: "\<not> increases_nesting_level (ntype node)"
      using nc nesting_is_control by blast
    have "fold (\<lambda>child. analyze_control_flow (node # anc) (Some child)) (children node) r2 = r2"
      for r2
      using 2(2) [OF False] 2(3) by (intro fold_id) (auto dest: no_control_child)
    then show ?thesis
      using False nc ni
      by (subst analyze_control_flow.simps) (simp add: check_control_structure_def)
  qed
qed

text \<open>
  The example of the repository: \<open>countVowels\<close> scores 7, factor by factor as the comments
  of \<open>examples/vowel_count.cpp\<close> say.
\<close>

lemma vowel_count_example_scores_seven:
  "total_complexity (calculate [tu] (Some vowel_count_fn) src) = 7
   \<and> factors (calculate [tu] (Some vowel_count_fn) src)
       = [\<lparr>description = ''for_range_loop'', increment = 1, line_number = 11\<rparr>,
          \<lparr>description = ''for_range_loop'', increment = 1, line_number = 12\<rparr>,
          \<lparr>description = ''Nested for_range_loop'', increment = 1, line_number = 12\<rparr>,
          \<lparr>description = ''if_statement'', increment = 1, line_number = 13\<rparr>,
          \<lparr>description = ''Nested if_statement'', increment = 2, line_number = 13\<rparr>,
          \<lparr>description = ''if_statement'', increment = 1, line_number = 19\<rparr>]"
proof -
  have "total_complexity (calculate [tu] (Some vowel_count_fn) []) = 7"
    by code_simp
  moreover have "factors (calculate [tu] (Some vowel_count_fn) [])
       = [\<lparr>description = ''for_range_loop'', increment = 1, line_number = 11\<rparr>,
          \<lparr>description = ''for_range_loop'', increment = 1, line_number = 12\<rparr>,
          \<lparr>description = ''Nested for_range_loop'', increment = 1, line_number = 12\<rparr>,
          \<lparr>description = ''if_statement'', increment = 1, line_number = 13\<rparr>,
          \<lparr>description = ''Nested if_statement'', increment = 2, line_number = 13\<rparr>,
          \<lparr>description = ''if_statement'', increment = 1, line_number = 19\<rparr>]"
    by code_simp
  ultimately show ?thesis
    using calculate_source_unused [of _ _ src] by simp
qed

text \<open>
  C9. When no node of the traversed subtree is a control structure, \<open>calculate\<close> returns
  total 0 and no factor: for a root whose whole subtree has none, and for a function or
  method node whose \<open>body\<close> has none. Logical operators are ordinary nodes for the
  traversal: \<open>analyze_boolean_operators\<close> would add 1 for an \<open>&&\<close>, and \<open>calculate\<close> never
  calls it.
\<close>

theorem no_control_structures_scores_zero:
  "(no_control_structures n \<longrightarrow>
      total_complexity (calculate anc (Some n) src) = 0
      \<and> factors (calculate anc (Some n) src) = [])
   \<and> ((ntype f = ''function_definition'' \<or> ntype f = ''method_definition'')
        \<and> child_by_field_name f ''body'' = Some b \<and> no_control_structures b \<longrightarrow>
      total_complexity (calculate anc (Some f) src) = 0
      \<and> factors (calculate anc (Some f) src) = [])"
proof -
  have "calculate anc (Some n) src = ComplexityResult_init" if "no_control_structures n"
    using that
    by (auto simp: calculate_def analyze_control_flow_no_control ComplexityResult_init_def
        split: option.splits dest!: child_by_field_name_in dest: no_control_child)
  moreover have "calculate anc (Some f) src = ComplexityResult_init"
    if "ntype f = ''function_definition'' \<or> ntype f = ''method_definition''"
      and "child_by_field_name f ''body'' = Some b" and "no_control_structures b"
    using that
    by (auto simp: calculate_def analyze_control_flow_no_control ComplexityResult_init_def)
  ultimately show ?thesis
    by (auto simp: ComplexityResult_init_def)
qed

theorem no_control_structures_scores_zero_witness:
  "no_control_structures and_return_fn
   \<and> ntype and_return_fn = ''function_definition''
   \<and> child_by_field_name and_return_fn ''body'' \<noteq> None
   \<and> no_control_structures (the (child_by_field_name and_return_fn ''body''))
   \<and> and_expression \<in> set (subnodes and_return_fn)
   \<and> total_complexity (calculate [tu] (Some and_return_fn) []) = 0
   \<and> factors (calculate [tu] (Some and_return_fn) []) = []
   \<and> total_complexity (analyze_boolean_operators (Some and_expression) ComplexityResult_init) = 1"
proof -
  have h1: "no_control_structures and_return_fn" by code_simp
  have h2: "ntype and_return_fn = ''function_definition''" by code_simp
  have h3: "child_by_field_name and_return_fn ''body'' \<noteq> None" by code_simp
  have h4: "no_control_structures (the (child_by_field_name and_return_fn ''body''))" by code_simp
  have h5: "and_expression \<in> set (subnodes and_return_fn)" by code_simp
  have h6: "total_complexity (analyze_boolean_operators (Some and_expression) ComplexityResult_init) = 1"
    by code_simp
  from h3 obtain b where b: "child_by_field_name and_return_fn ''body'' = Some b" by auto
  show ?thesis
    using no_control_structures_scores_zero [of and_return_fn "[tu]" "[]" and_return_fn b]
      h1 h2 h3 h4 h5 h6 b
    by simp
qed







text \<open>
  On a tree in which an \<open>else_clause\<close> wraps the else-if, a shape outside the pinned
  grammar, the traversal counts each wrapper besides the hybrid factor.
\<close>

lemma else_clause_wrappers_are_counted:
  "factors (calculate [tu] (Some else_if_chain_fn) [])
     = [\<lparr>description = ''if_statement'', increment = 1, line_number = 2\<rparr>,
        \<lparr>description = ''else_clause'', increment = 1, line_number = 3\<rparr>,
        \<lparr>description = ''else-if chain'', increment = 1, line_number = 3\<rparr>,
        \<lparr>description = ''else_clause'', increment = 1, line_number = 4\<rparr>]"
  by code_simp

lemma is_nested_below: "ntype f = ''function_definition'' \<Longrightarrow> is_nested (below @ f # anc)"
  by (induction below) auto

text \<open>
  C5 fails as stated on the traversal of \<open>part_002\<close>, which has no test for nested
  function definitions: the batch \<open>calculate\<close> gives the enclosing function \<open>f\<close> the score
  1, and the only control structure lies in the method nested inside it.
\<close>

theorem nested_function_counted_p002_counterexample:
  "\<not> isl (calculate_p002 [] (Some local_class_file) local_class_src)
   \<and> function_complexities (projr (calculate_p002 [] (Some local_class_file) local_class_src))
        ''f'' = Some 1"
  by code_simp

text \<open>
  C5, amended. In the traversal of \<open>part_001\<close>, a \<open>function_definition\<close> node that has a
  \<open>function_definition\<close> among its ancestors is left at once: the result is unchanged,
  nothing below it is visited. Every node below a function definition has that function
  among its ancestors. So the enclosing function of the example scores 0 with no factor,
  and the nested method, scored as its own unit, scores 1. The traversal of \<open>part_002\<close>
  descends into the nested definition and records its \<open>if\<close> for the enclosing function.
\<close>

theorem nested_function_skipped:
  "(ntype n = ''function_definition'' \<and> is_nested anc \<longrightarrow>
      analyze_control_flow anc (Some n) r = r)
   \<and> (ntype f = ''function_definition'' \<longrightarrow> is_nested (below @ f # up))
   \<and> total_complexity (calculate [local_class_file] (Some local_class_fn) src) = 0
   \<and> factors (calculate [local_class_file] (Some local_class_fn) src) = []
   \<and> total_complexity (calculate local_method_ancestors (Some local_method) src) = 1
   \<and> factors (calculate local_method_ancestors (Some local_method) src)
       = [\<lparr>description = ''if_statement'', increment = 1, line_number = 3\<rparr>]
   \<and> factors (analyze_control_flow_p002 [local_class_fn, local_class_file]
         (child_by_field_name local_class_fn ''body'') ComplexityResult_init)
       = [\<lparr>description = ''Control structure: if_statement'', increment = 1,
           line_number = 3\<rparr>]"
proof -
  have a: "analyze_control_flow anc (Some n) r = r"
    if "ntype n = ''function_definition''" and "is_nested anc"
    using that by (subst analyze_control_flow.simps) simp
  have b: "total_complexity (calculate [local_class_file] (Some local_class_fn) []) = 0"
    by code_simp
  have c: "factors (calculate [local_class_file] (Some local_class_fn) []) = []"
    by code_simp
  have d: "total_complexity (calculate local_method_ancestors (Some local_method) []) = 1"
    by code_simp
  have e: "factors (calculate local_method_ancestors (Some local_method) [])
       = [\<lparr>description = ''if_statement'', increment = 1, line_number = 3\<rparr>]"
    by code_simp
  have f: "factors (analyze_control_flow_p002 [local_class_fn, local_class_file]
         (child_by_field_name local_class_fn ''body'') ComplexityResult_init)
       = [\<lparr>description = ''Control structure: if_statement'', increment = 1,
           line_number = 3\<rparr>]"
    by code_simp
  show ?thesis
    using a b c d e f is_nested_below [of f below up] calculate_source_unused [of _ _ src]
    by simp
qed

theorem nested_function_skipped_witness:
  "ntype local_method = ''function_definition''
   \<and> is_nested local_method_ancestors
   \<and> ntype local_class_fn = ''function_definition''
   \<and> local_method_ancestors
        = [local_class_body, local_struct, local_class_decl, block_from 0 [local_class_decl]]
          @ local_class_fn # [local_class_file]
   \<and> analyze_control_flow local_method_ancestors (Some local_method)
        ComplexityResult_init = ComplexityResult_init"
proof -
  have h1: "ntype local_method = ''function_definition'' \<and> is_nested local_method_ancestors"
    by code_simp
  have h2: "ntype local_class_fn = ''function_definition''"
    by code_simp
  have h3: "local_method_ancestors
        = [local_class_body, local_struct, local_class_decl, block_from 0 [local_class_decl]]
          @ local_class_fn # [local_class_file]"
    by (simp add: local_method_ancestors_def)
  note inst = nested_function_skipped
    [of local_method local_method_ancestors ComplexityResult_init local_class_fn
        "[local_class_body, local_struct, local_class_decl, block_from 0 [local_class_decl]]"
        "[local_class_file]" "[]"]
  from inst h1 have "analyze_control_flow local_method_ancestors (Some local_method)
        ComplexityResult_init = ComplexityResult_init"
    by blast
  moreover from inst h2 have "is_nested
     ([local_class_body, local_struct, local_class_decl, block_from 0 [local_class_decl]]
      @ local_class_fn # [local_class_file])"
    by blast
  ultimately show ?thesis
    using h1 h2 h3 by simp
qed

text \<open>
  C6 fails as stated on the tables of \<open>part_001\<close>: \<open>switch_statement\<close> is not a nesting
  construct there, and the \<open>if\<close> inside the \<open>switch\<close> gets no nesting factor.
\<close>

theorem switch_not_nesting_counterexample:
  "\<not> increases_nesting_level ''switch_statement''
   \<and> factors (calculate [switch_file] (Some switch_fn) [])
       = [\<lparr>description = ''case_statement'', increment = 1, line_number = 3\<rparr>,
          \<lparr>description = ''if_statement'', increment = 1, line_number = 4\<rparr>]"
  by code_simp

text \<open>
  C6, amended. In \<open>part_002\<close> a \<open>switch_statement\<close> is a control structure and a nesting
  construct: it adds a structural factor of 1 (and a nesting factor when entered above
  level 0), its children are visited one level deeper, and the level is restored
  afterwards; the \<open>if\<close> inside the \<open>switch\<close> of the example gets the nesting factor 1.
  In \<open>part_001\<close> a \<open>switch_statement\<close> is in neither table: the node adds no factor and
  its children are visited at the level of the \<open>switch\<close> itself.
\<close>

theorem switch_nesting_by_revision:
  "increases_nesting_level_p002 ''switch_statement''
   \<and> is_control_structure_p002 ''switch_statement''
   \<and> (ntype n = ''switch_statement'' \<longrightarrow>
        analyze_control_flow_p002 anc (Some n) r
          = (fold (\<lambda>child. analyze_control_flow_p002 (n # anc) (Some child)) (children n)
               ((if 0 < nesting_level r
                 then increment_for_nesting
                        (increment_for_structural r ''Control structure: switch_statement''
                           (line_of n))
                        (nesting_level r) ''Nested switch_statement'' (line_of n)
                 else increment_for_structural r ''Control structure: switch_statement''
                        (line_of n))
                \<lparr>nesting_level := nesting_level r + 1\<rparr>))
            \<lparr>nesting_level := nesting_level r\<rparr>)
   \<and> factors (analyze_control_flow_p002 [switch_fn, switch_file]
         (child_by_field_name switch_fn ''body'') ComplexityResult_init)
       = [\<lparr>description = ''Control structure: switch_statement'', increment = 1,
           line_number = 2\<rparr>,
          \<lparr>description = ''Control structure: case_statement'', increment = 1,
           line_number = 3\<rparr>,
          \<lparr>description = ''Control structure: if_statement'', increment = 1,
           line_number = 4\<rparr>,
          \<lparr>description = ''Nested if_statement'', increment = 1, line_number = 4\<rparr>]
   \<and> \<not> increases_nesting_level ''switch_statement''
   \<and> \<not> is_control_structure ''switch_statement''
   \<and> (ntype n = ''switch_statement'' \<longrightarrow>
        analyze_control_flow anc (Some n) r
          = fold (\<lambda>child. analyze_control_flow (n # anc) (Some child)) (children n) r)"
proof -
  have a: "increases_nesting_level_p002 ''switch_statement''
      \<and> is_control_structure_p002 ''switch_statement''
      \<and> \<not> increases_nesting_level ''switch_statement''
      \<and> \<not> is_control_structure ''switch_statement''"
    by code_simp
  have b: "analyze_control_flow_p002 anc (Some n) r
          = (fold (\<lambda>child. analyze_control_flow_p002 (n # anc) (Some child)) (children n)
               ((if 0 < nesting_level r
                 then increment_for_nesting
                        (increment_for_structural r ''Control structure: switch_statement''
                           (line_of n))
                        (nesting_level r) ''Nested switch_statement'' (line_of n)
                 else increment_for_structural r ''Control structure: switch_statement''
                        (line_of n))
                \<lparr>nesting_level := nesting_level r + 1\<rparr>))
            \<lparr>nesting_level := nesting_level r\<rparr>"
    if "ntype n = ''switch_statement''"
    using that
    by (subst analyze_control_flow_p002.simps)
       (simp add: check_control_structure_p002_def Let_def is_control_structure_p002_def
          increases_nesting_level_p002_def parent_is_else_p002_def fold_level_p002
          increment_for_structural_def increment_for_nesting_def)
  have c: "factors (analyze_control_flow_p002 [switch_fn, switch_file]
         (child_by_field_name switch_fn ''body'') ComplexityResult_init)
       = [\<lparr>description = ''Control structure: switch_statement'', increment = 1,
           line_number = 2\<rparr>,
          \<lparr>description = ''Control structure: case_statement'', increment = 1,
           line_number = 3\<rparr>,
          \<lparr>description = ''Control structure: if_statement'', increment = 1,
           line_number = 4\<rparr>,
          \<lparr>description = ''Nested if_statement'', increment = 1, line_number = 4\<rparr>]"
    by code_simp
  have d: "analyze_control_flow anc (Some n) r
          = fold (\<lambda>child. analyze_control_flow (n # anc) (Some child)) (children n) r"
    if "ntype n = ''switch_statement''"
    using that
    by (subst analyze_control_flow.simps)
       (simp add: check_control_structure_def Let_def is_control_structure_def
          increases_nesting_level_def)
  show ?thesis
    using a b c d by simp
qed

theorem switch_nesting_by_revision_witness:
  "ntype switch_stmt = ''switch_statement''
   \<and> factors (analyze_control_flow_p002 [] (Some switch_stmt) ComplexityResult_init)
       = [\<lparr>description = ''Control structure: switch_statement'', increment = 1,
           line_number = 2\<rparr>,
          \<lparr>description = ''Control structure: case_statement'', increment = 1,
           line_number = 3\<rparr>,
          \<lparr>description = ''Control structure: if_statement'', increment = 1,
           line_number = 4\<rparr>,
          \<lparr>description = ''Nested if_statement'', increment = 1, line_number = 4\<rparr>]
   \<and> factors (analyze_control_flow [] (Some switch_stmt) ComplexityResult_init)
       = [\<lparr>description = ''case_statement'', increment = 1, line_number = 3\<rparr>,
          \<lparr>description = ''if_statement'', increment = 1, line_number = 4\<rparr>]"
proof -
  have h: "ntype switch_stmt = ''switch_statement''"
    by code_simp
  note inst = switch_nesting_by_revision [of switch_stmt "[]" ComplexityResult_init]
  note r1 = inst [THEN conjunct2, THEN conjunct2, THEN conjunct1, rule_format, OF h]
  note r2 = inst [THEN conjunct2, THEN conjunct2, THEN conjunct2, THEN conjunct2,
    THEN conjunct2, THEN conjunct2, rule_format, OF h]
  have f1: "factors (analyze_control_flow_p002 [] (Some switch_stmt) ComplexityResult_init)
       = [\<lparr>description = ''Control structure: switch_statement'', increment = 1,
           line_number = 2\<rparr>,
          \<lparr>description = ''Control structure: case_statement'', increment = 1,
           line_number = 3\<rparr>,
          \<lparr>description = ''Control structure: if_statement'', increment = 1,
           line_number = 4\<rparr>,
          \<lparr>description = ''Nested if_statement'', increment = 1, line_number = 4\<rparr>]"
    by (subst r1) code_simp
  have f2: "factors (analyze_control_flow [] (Some switch_stmt) ComplexityResult_init)
       = [\<lparr>description = ''case_statement'', increment = 1, line_number = 3\<rparr>,
          \<lparr>description = ''if_statement'', increment = 1, line_number = 4\<rparr>]"
    by (subst r2) code_simp
  show ?thesis
    using h f1 f2 by simp
qed

section \<open>Properties of the extractors\<close>

declare CppParser_collect_functions.simps [simp del]
  CppParser_collect_functions_p010.simps [simp del]
  PythonParser_collect_functions.simps [simp del]
  find_function_node.simps [simp del] find_name_loop.simps [simp del]
  find_name_loop_p010.simps [simp del] extract_name_loop.simps [simp del]

text \<open>
  Equations for evaluating the two walks whose recursive call sits under a \<open>\<lambda>\<close> with all
  its arguments: the loop over the children is named, and unfolds one child at a time.
\<close>

definition cpp_process_children :: "node list \<Rightarrow> string \<Rightarrow> FunctionInfo list \<Rightarrow> string \<Rightarrow> FunctionInfo list" where
  "cpp_process_children cs source fs class_scope =
     fold (\<lambda>child fs. CppParser_collect_functions (Some child) source fs class_scope) cs fs"

lemma cpp_process_children_code [code]:
  "cpp_process_children [] source fs class_scope = fs"
  "cpp_process_children (c # cs) source fs class_scope =
     cpp_process_children cs source
       (CppParser_collect_functions (Some c) source fs class_scope) class_scope"
  by (simp_all add: cpp_process_children_def)

lemma CppParser_collect_functions_code [code]:
  "CppParser_collect_functions None source fs class_scope = fs"
  "CppParser_collect_functions (Some n) source fs class_scope =
     (if ntype n = ''function_definition'' then
        (case child_by_field_name n ''declarator'' of
           None \<Rightarrow> cpp_process_children (children n) source fs class_scope
         | Some declarator \<Rightarrow>
             (case CppParser_find_function_name (Some declarator) of
                None \<Rightarrow> cpp_process_children (children n) source fs class_scope
              | Some name_node \<Rightarrow> fs @ [CppParser_info n name_node source class_scope]))
      else cpp_process_children (children n) source fs class_scope)"
  by (subst CppParser_collect_functions.simps,
      simp add: cpp_process_children_def Let_def split: option.split)+

definition search_children ::
  "node list \<Rightarrow> node list \<Rightarrow> string \<Rightarrow> string \<Rightarrow> (node list \<times> node) option" where
  "search_children anc cs fname source =
     first_found (\<lambda>child. find_function_node anc (Some child) fname source) cs"

lemma search_children_code [code]:
  "search_children anc [] fname source = None"
  "search_children anc (c # cs) fname source =
     (case find_function_node anc (Some c) fname source of
        Some r \<Rightarrow> Some r
      | None \<Rightarrow> search_children anc cs fname source)"
  by (simp_all add: search_children_def split: option.split)

lemma find_function_node_code [code]:
  "find_function_node anc None fname source = None"
  "find_function_node anc (Some n) fname source =
     (if ntype n = ''function_definition'' \<or> ntype n = ''decorated_definition'' then
        (case (if ntype n = ''decorated_definition''
               then child_by_field_name n ''definition'' else Some n) of
           None \<Rightarrow> None
         | Some actual_func_node \<Rightarrow>
             (let actual_anc = (if ntype n = ''decorated_definition'' then n # anc else anc)
              in if python_full_name actual_anc actual_func_node source = Some fname
                 then Some (actual_anc, actual_func_node)
                 else if ntype n = ''function_definition''
                         \<and> cpp_current_name n source = Some fname
                 then Some (anc, n)
                 else search_children (n # anc) (children n) fname source))
      else search_children (n # anc) (children n) fname source)"
  by (subst find_function_node.simps,
      simp add: search_children_def Let_def split: option.split)+

lemma fold_prefix:
  "(\<And>c fs. c \<in> set cs \<Longrightarrow> prefix fs (f c fs)) \<Longrightarrow> prefix fs (fold f cs fs)"
proof (induction cs arbitrary: fs)
  case Nil
  then show ?case by simp
next
  case (Cons c cs)
  have "prefix fs (f c fs)" using Cons.prems by simp
  moreover have "prefix (f c fs) (fold f cs (f c fs))"
    using Cons.IH Cons.prems by simp
  ultimately show ?case by (auto intro: prefix_order.trans)
qed

lemma fold_reaches:
  "c \<in> set cs \<Longrightarrow> (\<And>fs. P (f c fs)) \<Longrightarrow>
   (\<And>c' fs. c' \<in> set cs \<Longrightarrow> P fs \<Longrightarrow> P (f c' fs)) \<Longrightarrow> P (fold f cs fs)"
proof (induction cs arbitrary: fs)
  case Nil
  then show ?case by simp
next
  case (Cons a cs)
  show ?case
  proof (cases "c \<in> set cs")
    case True
    then show ?thesis using Cons by simp
  next
    case False
    then have "a = c" using Cons.prems(1) by simp
    then have "P (f a fs)" using Cons.prems(2) by simp
    then have "P (fold f cs (f a fs))"
      using Cons.prems(3) by (intro fold_inv [where P = P]) auto
    then show ?thesis by simp
  qed
qed

definition python_visit :: "node list \<Rightarrow> node \<Rightarrow> string \<Rightarrow> FunctionInfo list option" where
  "python_visit anc n source =
     (if ntype n = ''decorated_definition'' then
        (case child_by_field_name n ''definition'' of
           None \<Rightarrow> None
         | Some func_node \<Rightarrow> Some [PythonParser_info (n # anc) func_node source])
      else if ntype n = ''function_definition'' then Some [PythonParser_info anc n source]
      else Some [])"

lemma PythonParser_collect_unfold:
  "PythonParser_collect_functions anc n src fs =
     (case python_visit anc n src of
        None \<Rightarrow> fs
      | Some us \<Rightarrow>
          fold (\<lambda>child. PythonParser_collect_functions (n # anc) child src)
               (children n) (fs @ us))"
  by (subst PythonParser_collect_functions.simps)
     (simp add: python_visit_def split: option.splits)

lemma PythonParser_collect_prefix:
  "prefix fs (PythonParser_collect_functions anc n src fs)"
proof (induction n arbitrary: anc fs rule: measure_induct_rule [where f = size])
  case (less n)
  show ?case
  proof (cases "python_visit anc n src")
    case None
    then show ?thesis by (simp add: PythonParser_collect_unfold)
  next
    case (Some us)
    have "prefix (fs @ us)
            (fold (\<lambda>child. PythonParser_collect_functions (n # anc) child src)
               (children n) (fs @ us))"
      by (rule fold_prefix) (simp add: less size_child)
    then have "prefix fs
            (fold (\<lambda>child. PythonParser_collect_functions (n # anc) child src)
               (children n) (fs @ us))"
      using prefix_order.trans prefixI by blast
    then show ?thesis by (simp add: PythonParser_collect_unfold Some)
  qed
qed

lemma decorated_have_definition_child:
  "decorated_have_definition n \<Longrightarrow> c \<in> set (children n) \<Longrightarrow> decorated_have_definition c"
  by (auto simp: decorated_have_definition_def subnodes.simps [of n] list_all_iff)

lemma decorated_have_definition_node:
  "decorated_have_definition n \<Longrightarrow> ntype n = ''decorated_definition'' \<Longrightarrow>
   child_by_field_name n ''definition'' \<noteq> None"
  by (simp add: decorated_have_definition_def subnodes.simps [of n])

lemma PythonParser_collect_yields:
  "decorated_have_definition n \<Longrightarrow> m \<in> set (subnodes n) \<Longrightarrow>
   ntype m = ''function_definition'' \<Longrightarrow>
   Some m \<in> set (map info_node (PythonParser_collect_functions anc n src fs))"
proof (induction n arbitrary: anc fs rule: measure_induct_rule [where f = size])
  case (less n)
  have "python_visit anc n src \<noteq> None"
    using decorated_have_definition_node [OF less.prems(1)]
    by (cases "ntype n = ''decorated_definition''") (auto simp: python_visit_def)
  then obtain us where us: "python_visit anc n src = Some us"
    by blast
  let ?walk = "fold (\<lambda>child. PythonParser_collect_functions (n # anc) child src) (children n)"
  have eq: "PythonParser_collect_functions anc n src fs = ?walk (fs @ us)"
    by (simp add: PythonParser_collect_unfold us)
  have mono: "Some m \<in> set (map info_node (PythonParser_collect_functions a c src gs))"
    if "Some m \<in> set (map info_node gs)" for a c gs
    using that set_mono_prefix [OF PythonParser_collect_prefix [of gs a c src]] by auto
  consider "m = n" | c where "c \<in> set (children n)" and "m \<in> set (subnodes c)"
    using less.prems(2) by (auto simp: subnodes.simps [of n])
  then show ?case
  proof cases
    case 1
    then have "us = [PythonParser_info anc n src]"
      using us less.prems(3) by (simp add: python_visit_def)
    then have "Some m \<in> set (map info_node (fs @ us))"
      using 1 by (simp add: PythonParser_info_def)
    then have "Some m \<in> set (map info_node (?walk (fs @ us)))"
      by (rule fold_inv [where P = "\<lambda>gs :: FunctionInfo list. Some m \<in> set (map info_node gs)", rotated])
         (rule mono)
    then show ?thesis by (simp add: eq)
  next
    case 2
    have "Some m \<in> set (map info_node (?walk (fs @ us)))"
    proof (rule fold_reaches [where P = "\<lambda>gs :: FunctionInfo list. Some m \<in> set (map info_node gs)", OF 2(1)])
      fix gs
      show "Some m \<in> set (map info_node (PythonParser_collect_functions (n # anc) c src gs))"
        using less.IH [OF size_child [OF 2(1)]]
          decorated_have_definition_child [OF less.prems(1) 2(1)] 2(2) less.prems(3)
        by blast
    next
      fix c' and gs :: "FunctionInfo list"
      assume "Some m \<in> set (map info_node gs)"
      then show "Some m \<in> set (map info_node
          (PythonParser_collect_functions (n # anc) c' src gs))"
        by (rule mono)
    qed
    then show ?thesis by (simp add: eq)
  qed
qed


text \<open>
  C7 fails as stated on the C-family extractor: in both of its revisions
  \<open>collect_functions\<close> returns as soon as it has appended a function definition, so the
  function \<open>g\<close> defined inside \<open>f\<close> is not yielded.
\<close>

theorem cpp_stops_at_function_counterexample:
  "map name (CppParser_parse_functions (Some nested_cpp_file) nested_cpp_src) = [''f'']
   \<and> map name (CppParser_collect_functions_p010 (Some nested_cpp_file) nested_cpp_src [])
       = [''f'']
   \<and> nested_cpp_inner \<in> set (subnodes nested_cpp_file)
   \<and> ntype nested_cpp_inner = ''function_definition''"
  by code_simp

text \<open>
  C7, amended. The indentation-based extractor goes on into the body of every function
  definition it has appended: in a tree whose decorated definitions have their
  \<open>definition\<close> field, every \<open>function_definition\<close> node, however deeply nested, is
  yielded as a unit of its own; and the unit of a function node is appended before its
  children are visited, with the name, lines and body text that \<open>PythonParser_info\<close> reads
  from the node itself and from the names of its ancestors (in the example \<open>outer\<close> keeps
  lines 1 to 4 and its whole body text, and the nested one is \<open>outer.inner\<close>). The
  C-family extractor, in both revisions, appends the unit of a function definition and
  visits nothing below it.
\<close>

theorem nested_definitions_by_extractor:
  "(decorated_have_definition n \<longrightarrow>
      (\<forall>m \<in> set (subnodes n). ntype m = ''function_definition'' \<longrightarrow>
         Some m \<in> set (map info_node (PythonParser_collect_functions anc n src fs))))
   \<and> (ntype n = ''function_definition'' \<longrightarrow>
        prefix (fs @ [PythonParser_info anc n src])
          (PythonParser_collect_functions anc n src fs))
   \<and> map (\<lambda>u. (name u, start_line u, end_line u, body u))
        (PythonParser_parse_functions (Some nested_py_file) nested_py_src)
       = [(''outer'', 1, 4, ''def inner():\<newline>        pass\<newline>    return 1''),
          (''outer.inner'', 2, 3, ''pass'')]
   \<and> (ntype c = ''function_definition'' \<and> child_by_field_name c ''declarator'' = Some d
        \<and> CppParser_find_function_name (Some d) = Some nm \<longrightarrow>
        CppParser_collect_functions (Some c) src gs scope
          = gs @ [CppParser_info c nm src scope])
   \<and> (ntype c = ''function_definition'' \<longrightarrow>
        CppParser_collect_functions_p010 (Some c) src gs = gs @ [CppParser_info_p010 c src])"
proof -
  have a: "Some m \<in> set (map info_node (PythonParser_collect_functions anc n src fs))"
    if "decorated_have_definition n" and "m \<in> set (subnodes n)"
      and "ntype m = ''function_definition''" for m
    using that by (rule PythonParser_collect_yields)
  have b: "prefix (fs @ [PythonParser_info anc n src])
          (PythonParser_collect_functions anc n src fs)"
    if "ntype n = ''function_definition''"
  proof -
    have "python_visit anc n src = Some [PythonParser_info anc n src]"
      using that by (simp add: python_visit_def)
    then have "PythonParser_collect_functions anc n src fs
        = fold (\<lambda>child. PythonParser_collect_functions (n # anc) child src)
            (children n) (fs @ [PythonParser_info anc n src])"
      by (simp add: PythonParser_collect_unfold)
    then show ?thesis
      by (simp add: fold_prefix PythonParser_collect_prefix)
  qed
  have c: "map (\<lambda>u. (name u, start_line u, end_line u, body u))
        (PythonParser_parse_functions (Some nested_py_file) nested_py_src)
       = [(''outer'', 1, 4, ''def inner():\<newline>        pass\<newline>    return 1''),
          (''outer.inner'', 2, 3, ''pass'')]"
    by code_simp
  have d: "CppParser_collect_functions (Some c) src gs scope
          = gs @ [CppParser_info c nm src scope]"
    if "ntype c = ''function_definition''" and "child_by_field_name c ''declarator'' = Some d"
      and "CppParser_find_function_name (Some d) = Some nm"
    using that by (subst CppParser_collect_functions.simps) (simp add: Let_def)
  have e: "CppParser_collect_functions_p010 (Some c) src gs = gs @ [CppParser_info_p010 c src]"
    if "ntype c = ''function_definition''"
    using that by (subst CppParser_collect_functions_p010.simps) simp
  have A: "decorated_have_definition n \<longrightarrow>
      (\<forall>m \<in> set (subnodes n). ntype m = ''function_definition'' \<longrightarrow>
         Some m \<in> set (map info_node (PythonParser_collect_functions anc n src fs)))"
    using a by blast
  have B: "ntype n = ''function_definition'' \<longrightarrow>
        prefix (fs @ [PythonParser_info anc n src])
          (PythonParser_collect_functions anc n src fs)"
    using b by blast
  have D: "ntype c = ''function_definition'' \<and> child_by_field_name c ''declarator'' = Some d
        \<and> CppParser_find_function_name (Some d) = Some nm \<longrightarrow>
        CppParser_collect_functions (Some c) src gs scope
          = gs @ [CppParser_info c nm src scope]"
    using d by blast
  have E: "ntype c = ''function_definition'' \<longrightarrow>
        CppParser_collect_functions_p010 (Some c) src gs = gs @ [CppParser_info_p010 c src]"
    using e by blast
  show ?thesis
    by (intro conjI A B c D E)
qed

theorem nested_definitions_by_extractor_witness:
  "decorated_have_definition nested_py_file
   \<and> nested_py_inner \<in> set (subnodes nested_py_file)
   \<and> ntype nested_py_inner = ''function_definition''
   \<and> Some nested_py_inner
        \<in> set (map info_node (PythonParser_collect_functions [] nested_py_file nested_py_src []))
   \<and> ntype nested_py_outer = ''function_definition''
   \<and> prefix ([] @ [PythonParser_info [nested_py_file] nested_py_outer nested_py_src])
        (PythonParser_collect_functions [nested_py_file] nested_py_outer nested_py_src [])
   \<and> ntype nested_cpp_outer = ''function_definition''
   \<and> child_by_field_name nested_cpp_outer ''declarator'' \<noteq> None
   \<and> CppParser_find_function_name (child_by_field_name nested_cpp_outer ''declarator'')
       = Some (Node ''identifier'' 5 6 0 0 [])
   \<and> CppParser_collect_functions (Some nested_cpp_outer) nested_cpp_src [] []
       = [] @ [CppParser_info nested_cpp_outer (Node ''identifier'' 5 6 0 0 [])
                 nested_cpp_src []]
   \<and> CppParser_collect_functions_p010 (Some nested_cpp_outer) nested_cpp_src []
       = [] @ [CppParser_info_p010 nested_cpp_outer nested_cpp_src]"
proof -
  have h1: "decorated_have_definition nested_py_file" by code_simp
  have h2: "nested_py_inner \<in> set (subnodes nested_py_file)" by code_simp
  have h3: "ntype nested_py_inner = ''function_definition''" by code_simp
  have h4: "ntype nested_py_outer = ''function_definition''" by code_simp
  have h5: "ntype nested_cpp_outer = ''function_definition''" by code_simp
  have h6: "child_by_field_name nested_cpp_outer ''declarator'' \<noteq> None" by code_simp
  then obtain d where d: "child_by_field_name nested_cpp_outer ''declarator'' = Some d"
    by blast
  have h7: "CppParser_find_function_name (child_by_field_name nested_cpp_outer ''declarator'')
       = Some (Node ''identifier'' 5 6 0 0 [])"
    by code_simp
  note py = nested_definitions_by_extractor
    [of nested_py_file "[]" nested_py_src "[]" nested_cpp_outer d
        "Node ''identifier'' 5 6 0 0 []" "[]" "[]"]
  note outer = nested_definitions_by_extractor
    [of nested_py_outer "[nested_py_file]" nested_py_src "[]" nested_cpp_outer d
        "Node ''identifier'' 5 6 0 0 []" "[]" "[]"]
  note cpp = nested_definitions_by_extractor
    [of nested_py_file "[]" nested_cpp_src "[]" nested_cpp_outer d
        "Node ''identifier'' 5 6 0 0 []" "[]" "[]"]
  have h7': "CppParser_find_function_name (Some d) = Some (Node ''identifier'' 5 6 0 0 [])"
    using h7 d by simp
  have w1: "Some nested_py_inner
        \<in> set (map info_node (PythonParser_collect_functions [] nested_py_file nested_py_src []))"
    by (rule py [THEN conjunct1, rule_format, OF h1 h2 h3])
  have w2: "prefix ([] @ [PythonParser_info [nested_py_file] nested_py_outer nested_py_src])
        (PythonParser_collect_functions [nested_py_file] nested_py_outer nested_py_src [])"
    by (rule outer [THEN conjunct2, THEN conjunct1, rule_format, OF h4])
  have w3: "CppParser_collect_functions (Some nested_cpp_outer) nested_cpp_src [] []
       = [] @ [CppParser_info nested_cpp_outer (Node ''identifier'' 5 6 0 0 [])
                 nested_cpp_src []]"
    by (rule cpp [THEN conjunct2, THEN conjunct2, THEN conjunct2, THEN conjunct1,
          rule_format, OF conjI [OF h5 conjI [OF d h7']]])
  have w4: "CppParser_collect_functions_p010 (Some nested_cpp_outer) nested_cpp_src []
       = [] @ [CppParser_info_p010 nested_cpp_outer nested_cpp_src]"
    by (rule cpp [THEN conjunct2, THEN conjunct2, THEN conjunct2, THEN conjunct2,
          rule_format, OF h5])
  show ?thesis
    by (intro conjI h1 h2 h3 h4 h5 h6 h7 w1 w2 w3 w4)
qed


text \<open>
  The search of \<open>analyzer.cpp\<close> with its loop over the children named, for evaluation, and
  two facts about its loop over the units: the results collected so far are kept, and a
  unit whose node is found and scored above the threshold has a result under its name.
\<close>

declare find_function_node_analyzer_cpp.simps [simp del]

definition search_children_analyzer_cpp ::
  "node list \<Rightarrow> node list \<Rightarrow> string \<Rightarrow> string \<Rightarrow> (node list \<times> node) option" where
  "search_children_analyzer_cpp anc cs fname source =
     first_found (\<lambda>child. find_function_node_analyzer_cpp anc (Some child) fname source) cs"

lemma search_children_analyzer_cpp_code [code]:
  "search_children_analyzer_cpp anc [] fname source = None"
  "search_children_analyzer_cpp anc (c # cs) fname source =
     (case find_function_node_analyzer_cpp anc (Some c) fname source of
        Some r \<Rightarrow> Some r
      | None \<Rightarrow> search_children_analyzer_cpp anc cs fname source)"
  by (simp_all add: search_children_analyzer_cpp_def split: option.split)

lemma find_function_node_analyzer_cpp_code [code]:
  "find_function_node_analyzer_cpp anc None fname source = None"
  "find_function_node_analyzer_cpp anc (Some n) fname source =
     (if ntype n = ''function_definition'' \<or> ntype n = ''function_declaration'' then
        (case child_by_field_name n ''declarator'' of
           None \<Rightarrow> search_children_analyzer_cpp (n # anc) (children n) fname source
         | Some declarator \<Rightarrow>
             if extract_function_name declarator source = fname then Some (anc, n)
             else search_children_analyzer_cpp (n # anc) (children n) fname source)
      else search_children_analyzer_cpp (n # anc) (children n) fname source)"
  by (subst find_function_node_analyzer_cpp.simps,
      simp add: search_children_analyzer_cpp_def Let_def split: option.split)+







section \<open>Properties of the registry\<close>

text \<open>
  C8 fails as stated: \<open>create_parser_for_file\<close> does not lowercase. An upper-case
  extension is looked up as written and finds no parser, where the resolution worded by
  the specification finds the C-family parser.
\<close>

theorem extension_not_lowercased_counterexample:
  "create_parser_for_file Analyzer_factory ''Widget.HPP'' = None
   \<and> create_for_extension_spec Analyzer_factory ''Widget.HPP'' = Some CppParser"
  by code_simp

lemma extensions_Analyzer_factory:
  "extensions Analyzer_factory e =
     (if e = ''py'' then Some ''python''
      else if e \<in> set [''cpp'', ''cxx'', ''cc'', ''hpp'', ''hxx'', ''h''] then Some ''cpp''
      else None)"
  by (simp add: Analyzer_factory_def register_parser_def ParserFactory_init_def Let_def)

lemma parsers_Analyzer_factory:
  "parsers Analyzer_factory ''python'' = Some PythonParser
   \<and> parsers Analyzer_factory ''cpp'' = Some CppParser"
  by (simp add: Analyzer_factory_def register_parser_def ParserFactory_init_def Let_def)

lemma path_extension_shape:
  "path_extension p = [] \<or> (\<exists>e. path_extension p = CHR ''.'' # e)"
  by (simp add: path_extension_def Let_def)

text \<open>
  C8, amended. With the two extractors registered, the resolution takes the extension of
  the file name, drops its leading dot and looks it up as it is written: \<open>py\<close> gives the
  indentation-based parser, \<open>cpp\<close>, \<open>cxx\<close>, \<open>cc\<close>, \<open>hpp\<close>, \<open>hxx\<close> and \<open>h\<close> the C-family
  parser, and anything else, an absent extension and an upper-case one included, gives
  none. The answer is an optional parser on every path.
\<close>

theorem extension_resolution_is_case_sensitive:
  "create_parser_for_file Analyzer_factory p =
     (let e = drop 1 (path_extension p)
      in if e = ''py'' then Some PythonParser
         else if e \<in> set [''cpp'', ''cxx'', ''cc'', ''hpp'', ''hxx'', ''h'']
         then Some CppParser
         else None)
   \<and> create_parser_for_file Analyzer_factory ''tools/gen.py'' = Some PythonParser
   \<and> create_parser_for_file Analyzer_factory ''include/widget.hpp'' = Some CppParser
   \<and> create_parser_for_file Analyzer_factory ''src/lib.rs'' = None
   \<and> create_parser_for_file Analyzer_factory ''Makefile'' = None
   \<and> create_parser_for_file Analyzer_factory ''Widget.HPP'' = None"
proof -
  have general: "create_parser_for_file Analyzer_factory p =
     (let e = drop 1 (path_extension p)
      in if e = ''py'' then Some PythonParser
         else if e \<in> set [''cpp'', ''cxx'', ''cc'', ''hpp'', ''hxx'', ''h'']
         then Some CppParser
         else None)"
  proof (cases "path_extension p = []")
    case True
    then show ?thesis by (simp add: create_parser_for_file_def)
  next
    case False
    then obtain e where e: "path_extension p = CHR ''.'' # e"
      using path_extension_shape [of p] by auto
    show ?thesis
      by (simp add: create_parser_for_file_def e extensions_Analyzer_factory
          create_parser_def parsers_Analyzer_factory)
  qed
  have examples: "create_parser_for_file Analyzer_factory ''tools/gen.py'' = Some PythonParser
   \<and> create_parser_for_file Analyzer_factory ''include/widget.hpp'' = Some CppParser
   \<and> create_parser_for_file Analyzer_factory ''src/lib.rs'' = None
   \<and> create_parser_for_file Analyzer_factory ''Makefile'' = None
   \<and> create_parser_for_file Analyzer_factory ''Widget.HPP'' = None"
    by code_simp
  show ?thesis
    by (rule conjI [OF general examples])
qed

end
